theory Spec2Isabelle
  imports Complex_Main "HOL-Library.Sublist"
begin

section \<open>The 8-day SST downloader (SST\_script\_8day.py)\<close>

text \<open>
  \<open>download_nc_file\<close> works on the local data directory, on the sidecar file
  \<open>missing_files.txt\<close> and on the answers of the server. The state below holds what
  the function reads and writes: the sizes of the files of the data directory, the lines
  appended to the missing-files log, and the seconds spent in \<open>time.sleep\<close>.
  The file name is built from the start date of the period (lines 47 to 58 of the
  script); the model takes the finished name.
\<close>

record dl_state =
  files :: "string \<rightharpoonup> nat"
  missing_log :: "string list"
  slept :: nat

text \<open>
  One answer to \<open>session.get\<close>: the call raises a \<open>RequestException\<close>, or it
  returns a response, of which the function reads whether the content type contains
  \<open>text/html\<close>, the status code, and the body (whose length is the size of the file
  written).
\<close>

datatype response = RequestException | Response bool nat nat

definition DATA_DIR :: string where
  "DATA_DIR = ''sst_data_8day''"

definition save_path_of :: "string \<Rightarrow> string" where
  "save_path_of fname = DATA_DIR @ ''/'' @ fname"

definition min_valid_size :: nat where
  "min_valid_size = 10000"

definition retry_delay :: nat where
  "retry_delay = 5"

definition log_line :: "string \<Rightarrow> dl_state \<Rightarrow> dl_state" where
  "log_line l s = s\<lparr>missing_log := missing_log s @ [l]\<rparr>"

definition sleep :: "nat \<Rightarrow> dl_state \<Rightarrow> dl_state" where
  "sleep d s = s\<lparr>slept := slept s + d\<rparr>"

text \<open>
  The loop \<open>for attempt in range(1, retries + 1)\<close>: \<open>attempt\<close> is the number of the
  attempt, the second number counts the attempts that are left. The server is a function
  from the number of the attempt to its answer.
\<close>

fun attempt_loop ::
  "string \<Rightarrow> (nat \<Rightarrow> response) \<Rightarrow> nat \<Rightarrow> nat \<Rightarrow> dl_state \<Rightarrow> string option \<times> dl_state" where
  "attempt_loop fname server attempt 0 s =
     (None, log_line (fname @ '' (Max retries reached)'') s)"
| "attempt_loop fname server attempt (Suc left) s =
     (case server attempt of
        RequestException \<Rightarrow> attempt_loop fname server (Suc attempt) left (sleep retry_delay s)
      | Response html status body \<Rightarrow>
          if html then (None, s)
          else if status = 200 then
            (let s' = s\<lparr>files := (files s)(save_path_of fname \<mapsto> body)\<rparr>
             in if body > min_valid_size then (Some (save_path_of fname), s')
                else (None, s'\<lparr>files := (files s')(save_path_of fname := None)\<rparr>))
          else if status = 404 then (None, log_line (fname @ '' (404 Not Found)'') s)
          else attempt_loop fname server (Suc attempt) left (sleep retry_delay s))"

definition already_valid :: "string \<Rightarrow> dl_state \<Rightarrow> bool" where
  "already_valid fname s =
     (case files s (save_path_of fname) of None \<Rightarrow> False | Some sz \<Rightarrow> sz > min_valid_size)"

definition download_nc_file ::
  "string \<Rightarrow> (nat \<Rightarrow> response) \<Rightarrow> int \<Rightarrow> dl_state \<Rightarrow> string option \<times> dl_state" where
  "download_nc_file fname server retries s =
     (if already_valid fname s then (Some (save_path_of fname), s)
      else attempt_loop fname server 1 (nat retries) s)"

text \<open>
  The main loop of the script calls \<open>download_nc_file(d)\<close> (three retries) for every
  period and collects the paths that came back.
\<close>

fun download_all ::
  "(string \<Rightarrow> nat \<Rightarrow> response) \<Rightarrow> string list \<Rightarrow> dl_state \<Rightarrow> string list \<times> dl_state" where
  "download_all servers [] s = ([], s)"
| "download_all servers (f # fs) s =
     (case download_nc_file f (servers f) 3 s of
        (r, s') \<Rightarrow>
          (case download_all servers fs s' of
             (ps, s'') \<Rightarrow> ((case r of None \<Rightarrow> ps | Some p \<Rightarrow> p # ps), s'')))"

section \<open>Library operations used by final\_dataset.py\<close>

text \<open>
  The join script does its searching through pandas, xarray, numpy and scipy. The
  definitions of this section follow the documented behaviour of the library routines
  that the script calls, since the results of the script are theirs. Timestamps are
  \<open>datetime64[ns]\<close> values, modelled as the integer number of nanoseconds since the
  epoch; \<open>float64\<close> values are modelled as real numbers (rounding is not modelled),
  and a \<open>NaN\<close> data value as \<open>None\<close>.
\<close>

datatype py_error =
  FileNotFoundError | ValueError | KeyError | IndexError | InvalidIndexError | OSError

datatype side = SLeft | SRight

text \<open>
  \<open>numpy.searchsorted\<close> on an ascending array: with \<open>side='left'\<close> the number of
  elements below the value, with \<open>side='right'\<close> the number of elements not above it.
\<close>

fun searchsorted :: "'a::linorder list \<Rightarrow> 'a \<Rightarrow> side \<Rightarrow> nat" where
  "searchsorted xs x SLeft = length (filter (\<lambda>v. v < x) xs)"
| "searchsorted xs x SRight = length (filter (\<lambda>v. v \<le> x) xs)"

definition is_monotonic_increasing :: "'a::linorder list \<Rightarrow> bool" where
  "is_monotonic_increasing xs = sorted xs"

definition is_monotonic_decreasing :: "'a::linorder list \<Rightarrow> bool" where
  "is_monotonic_decreasing xs = sorted (rev xs)"

fun flip_side :: "side \<Rightarrow> side" where
  "flip_side SLeft = SRight"
| "flip_side SRight = SLeft"

text \<open>
  \<open>Index._searchsorted_monotonic\<close>: a descending index is searched in reverse, with
  the side and the result mirrored; an index that is neither raises \<open>ValueError\<close>.
\<close>

definition searchsorted_monotonic :: "'a::linorder list \<Rightarrow> 'a \<Rightarrow> side \<Rightarrow> py_error + nat" where
  "searchsorted_monotonic xs x sd =
     (if is_monotonic_increasing xs then Inr (searchsorted xs x sd)
      else if is_monotonic_decreasing xs
        then Inr (length xs - searchsorted (rev xs) x (flip_side sd))
      else Inl ValueError)"

text \<open>\<open>Index.get_loc\<close> on an index without duplicates: the position of the label.\<close>

fun get_loc :: "'a list \<Rightarrow> 'a \<Rightarrow> nat option" where
  "get_loc [] x = None"
| "get_loc (v # vs) x = (if v = x then Some 0 else map_option Suc (get_loc vs x))"

text \<open>Reading an array at a Python index: a negative index counts from the end.\<close>

definition py_nth :: "'a list \<Rightarrow> int \<Rightarrow> 'a" where
  "py_nth xs i = xs ! nat (if i < 0 then int (length xs) + i else i)"

text \<open>
  \<open>Index.get_indexer\<close> with \<open>method='pad'\<close> (side \<open>SLeft\<close>) and
  \<open>method='backfill'\<close> (side \<open>SRight\<close>) for one label: an exact match gives its
  position; otherwise the label is searched, the position to the left is taken for
  \<open>pad\<close>, and \<open>-1\<close> stands for "not found". The index must have no duplicates
  (\<open>InvalidIndexError\<close>) and must be monotonic (\<open>ValueError\<close>).
\<close>

definition fill_indexer :: "'a::linorder list \<Rightarrow> 'a \<Rightarrow> side \<Rightarrow> py_error + int" where
  "fill_indexer xs x sd =
     (if \<not> distinct xs then Inl InvalidIndexError
      else case get_loc xs x of
        Some p \<Rightarrow> Inr (int p)
      | None \<Rightarrow>
          (case searchsorted_monotonic xs x sd of
             Inl e \<Rightarrow> Inl e
           | Inr pos \<Rightarrow>
               (case sd of
                  SLeft \<Rightarrow> Inr (int pos - 1)
                | SRight \<Rightarrow> if pos = length xs then Inr (- 1) else Inr (int pos))))"

text \<open>
  \<open>Index._get_nearest_indexer\<close> for one label, followed by xarray's check that the
  label was found:
  \<^verbatim>\<open>
    left_indexer = self.get_indexer(target, "pad")
    right_indexer = self.get_indexer(target, "backfill")
    left_distances = abs(self[left_indexer] - target)
    right_distances = abs(self[right_indexer] - target)
    op = operator.lt if self.is_monotonic_increasing else operator.le
    indexer = where(op(left_distances, right_distances) | (right_indexer == -1),
                    left_indexer, right_indexer)
  \<close>
\<close>

definition nearest_indexer :: "'a::linordered_idom list \<Rightarrow> 'a \<Rightarrow> py_error + nat" where
  "nearest_indexer xs x =
     (if xs = [] then Inl KeyError
      else case fill_indexer xs x SLeft of
        Inl e \<Rightarrow> Inl e
      | Inr l \<Rightarrow>
          (case fill_indexer xs x SRight of
             Inl e \<Rightarrow> Inl e
           | Inr r \<Rightarrow>
               (let ld = \<bar>py_nth xs l - x\<bar>;
                    rd = \<bar>py_nth xs r - x\<bar>;
                    pick_left = (if is_monotonic_increasing xs then ld < rd else ld \<le> rd);
                    i = (if pick_left \<or> r = - 1 then l else r)
                in if i < 0 then Inl KeyError else Inr (nat i))))"



text \<open>
  \<open>Index.slice_indexer(start, stop)\<close> as xarray calls it for a \<open>slice\<close> label:
  the left bound of \<open>start\<close> and the right bound of \<open>stop\<close>. On a monotonic index
  the bounds are searched; on another index both labels must be present
  (\<open>KeyError\<close> otherwise).
\<close>

definition get_slice_bound :: "'a::linorder list \<Rightarrow> 'a \<Rightarrow> side \<Rightarrow> py_error + nat" where
  "get_slice_bound xs x sd =
     (case searchsorted_monotonic xs x sd of
        Inr pos \<Rightarrow> Inr pos
      | Inl e \<Rightarrow>
          (case get_loc xs x of
             None \<Rightarrow> Inl KeyError
           | Some p \<Rightarrow> Inr (case sd of SLeft \<Rightarrow> p | SRight \<Rightarrow> Suc p)))"

definition slice_indexer :: "'a::linorder list \<Rightarrow> 'a \<Rightarrow> 'a \<Rightarrow> py_error + nat \<times> nat" where
  "slice_indexer xs start stop =
     (case get_slice_bound xs start SLeft of
        Inl e \<Rightarrow> Inl e
      | Inr i \<Rightarrow>
          (case get_slice_bound xs stop SRight of
             Inl e \<Rightarrow> Inl e
           | Inr j \<Rightarrow> Inr (i, j)))"

text \<open>The Python slice \<open>xs[i:j]\<close> for positions \<open>i\<close>, \<open>j\<close> within the array.\<close>

definition py_slice :: "nat \<times> nat \<Rightarrow> 'a list \<Rightarrow> 'a list" where
  "py_slice ij xs = drop (fst ij) (take (snd ij) xs)"

text \<open>
  \<open>scipy.spatial.KDTree.query(x, k=1)\<close> with the default Euclidean norm returns the
  index of a data point nearest to \<open>x\<close>; which one of several equally near points is
  returned is not documented, the model takes the first. Distances are compared by
  their squares, which orders them in the same way. On a tree without data the index
  returned is the number of data points, that is \<open>0\<close>.
\<close>

type_synonym point3 = "real \<times> real \<times> real"

fun sq_dist :: "point3 \<Rightarrow> point3 \<Rightarrow> real" where
  "sq_dist (a, b, c) (x, y, z) = (a - x)\<^sup>2 + (b - y)\<^sup>2 + (c - z)\<^sup>2"

definition euclidean :: "point3 \<Rightarrow> point3 \<Rightarrow> real" where
  "euclidean p q = sqrt (sq_dist p q)"

fun kdtree_query :: "point3 list \<Rightarrow> point3 \<Rightarrow> nat" where
  "kdtree_query [] q = 0"
| "kdtree_query [p] q = 0"
| "kdtree_query (p # ps) q =
     (let j = kdtree_query ps q
      in if sq_dist p q \<le> sq_dist (ps ! j) q then 0 else Suc j)"

text \<open>Indexing a numpy array with an array of positions.\<close>

definition take_indices :: "'a list \<Rightarrow> nat list \<Rightarrow> py_error + 'a list" where
  "take_indices vs idx =
     (if \<forall>i \<in> set idx. i < length vs then Inr (map (\<lambda>i. vs ! i) idx) else Inl IndexError)"

section \<open>Tables and environmental datasets\<close>

text \<open>
  A pandas table, row by row: the names of the columns in their order, and one list of
  cells per row, in the order of the columns. A cell is a timestamp, a float, an
  integer, or null (\<open>NaN\<close>, \<open>NaT\<close>).
\<close>

datatype cell = Null | TimeC int | Num real | IntC int

record frame =
  columns :: "string list"
  rows :: "cell list list"

text \<open>\<open>df[name]\<close>: the values of a column, \<open>KeyError\<close> when there is none.\<close>

definition column :: "frame \<Rightarrow> string \<Rightarrow> py_error + cell list" where
  "column f name =
     (case get_loc (columns f) name of
        None \<Rightarrow> Inl KeyError
      | Some k \<Rightarrow> Inr (map (\<lambda>r. r ! k) (rows f)))"

text \<open>
  \<open>df[name] = values\<close>: a new column goes to the end, an existing one is overwritten
  in place; values of another length than the table raise \<open>ValueError\<close>.
\<close>

definition put_column :: "frame \<Rightarrow> string \<Rightarrow> cell list \<Rightarrow> frame" where
  "put_column f name vs =
     (case get_loc (columns f) name of
        None \<Rightarrow> \<lparr>columns = columns f @ [name],
                 rows = map (\<lambda>(r, v). r @ [v]) (zip (rows f) vs)\<rparr>
      | Some k \<Rightarrow> \<lparr>columns = columns f,
                   rows = map (\<lambda>(r, v). r[k := v]) (zip (rows f) vs)\<rparr>)"

definition set_column :: "frame \<Rightarrow> string \<Rightarrow> cell list \<Rightarrow> py_error + frame" where
  "set_column f name vs =
     (if length vs = length (rows f) then Inr (put_column f name vs) else Inl ValueError)"

text \<open>\<open>df[name] = c\<close> for a scalar \<open>c\<close>.\<close>

definition set_scalar :: "frame \<Rightarrow> string \<Rightarrow> cell \<Rightarrow> frame" where
  "set_scalar f name c = put_column f name (replicate (length (rows f)) c)"

text \<open>\<open>df.dropna()\<close>: the rows without a null cell, in their order.\<close>

definition dropna :: "frame \<Rightarrow> frame" where
  "dropna f = f\<lparr>rows := filter (\<lambda>r. Null \<notin> set r) (rows f)\<rparr>"

text \<open>
  A well-formed table: no column name twice, and every row has one cell per column.
\<close>

definition frame_ok :: "frame \<Rightarrow> bool" where
  "frame_ok f = (distinct (columns f) \<and> (\<forall>r \<in> set (rows f). length r = length (columns f)))"

text \<open>\<open>df[cols]\<close> for a list of column names of the table.\<close>

definition select_columns :: "frame \<Rightarrow> string list \<Rightarrow> frame" where
  "select_columns f cols =
     \<lparr>columns = cols,
      rows = map (\<lambda>r. map (\<lambda>c. r ! the (get_loc (columns f) c)) cols) (rows f)\<rparr>"

definition drop_column :: "frame \<Rightarrow> string \<Rightarrow> frame" where
  "drop_column f name = select_columns f (filter (\<lambda>c. c \<noteq> name) (columns f))"

text \<open>
  \<open>pd.concat([a, b], ignore_index=True)\<close>: the columns of \<open>a\<close>, then the columns
  that only \<open>b\<close> has; a row has null where its table has no such column.
\<close>

definition widen :: "frame \<Rightarrow> string list \<Rightarrow> cell list list" where
  "widen f cols =
     map (\<lambda>r. map (\<lambda>c. case get_loc (columns f) c of None \<Rightarrow> Null | Some k \<Rightarrow> r ! k) cols)
       (rows f)"

definition concat_frames :: "frame \<Rightarrow> frame \<Rightarrow> frame" where
  "concat_frames a b =
     (let cols = columns a @ filter (\<lambda>c. c \<notin> set (columns a)) (columns b)
      in \<lparr>columns = cols, rows = widen a cols @ widen b cols\<rparr>)"

text \<open>
  A gridded dataset: the three axes and, for every data variable, the array indexed by
  (time, lat, lon). A track dataset: samples along one dimension, with the time,
  latitude and longitude of every sample and, for every data variable, its values.
  The coordinates are named \<open>lat\<close> and \<open>lon\<close> here, as they are after the renaming
  of lines 118 to 121.
\<close>

record grid =
  g_time :: "int list"
  g_lat :: "real list"
  g_lon :: "real list"
  g_vars :: "string \<rightharpoonup> real option list list list"

record track =
  t_time :: "int list"
  t_lat :: "real list"
  t_lon :: "real list"
  t_vars :: "string \<rightharpoonup> real option list"

datatype dataset = Gridded grid | Track track


text \<open>
  A folder of NetCDF files as the loader sees it: the paths that \<open>glob\<close> finds, which
  of them \<open>xr.open_dataset\<close> opens, and what \<open>xr.open_mfdataset\<close> makes of a list
  of files (it may raise).
\<close>

record folder =
  nc_files :: "string list"
  readable :: "string \<Rightarrow> bool"
  combined :: "string list \<Rightarrow> py_error + dataset"

section \<open>Loading a source (final\_dataset.py, step 5)\<close>

fun split_on :: "char \<Rightarrow> string \<Rightarrow> string list" where
  "split_on c [] = [[]]"
| "split_on c (x # xs) =
     (if x = c then [] # split_on c xs
      else (case split_on c xs of [] \<Rightarrow> [[x]] | w # ws \<Rightarrow> (x # w) # ws))"

definition basename :: "string \<Rightarrow> string" where
  "basename p = last (split_on (CHR ''/'') (last (split_on (CHR 0x5C) p)))"

text \<open>
  The start date in a file name \<open>prefix.YYYYMMDD_YYYYMMDD.suffix\<close>;
  \<open>to_datetime\<close> stands for \<open>pd.to_datetime(_, format='%Y%m%d')\<close>, and \<open>None\<close>
  for any exception.
\<close>

definition filename_time :: "(string \<Rightarrow> int option) \<Rightarrow> string \<Rightarrow> int option" where
  "filename_time to_datetime f =
     (case split_on (CHR ''.'') (basename f) of
        _ # d # _ \<Rightarrow> to_datetime (hd (split_on (CHR ''_'') d))
      | _ \<Rightarrow> None)"

definition time_dim :: "dataset \<Rightarrow> nat" where
  "time_dim ds = (case ds of Gridded g \<Rightarrow> length (g_time g) | Track t \<Rightarrow> length (t_time t))"

definition assign_time :: "dataset \<Rightarrow> int list \<Rightarrow> dataset" where
  "assign_time ds ts =
     (case ds of Gridded g \<Rightarrow> Gridded (g\<lparr>g_time := ts\<rparr>) | Track t \<Rightarrow> Track (t\<lparr>t_time := ts\<rparr>))"

definition build_time_coordinate_from_filenames ::
  "(string \<Rightarrow> int option) \<Rightarrow> dataset \<Rightarrow> string list \<Rightarrow> dataset" where
  "build_time_coordinate_from_filenames to_datetime ds fs =
     (let times = map (filename_time to_datetime) fs
      in if None \<notin> set times \<and> length times = time_dim ds
         then assign_time ds (map the times) else ds)"

text \<open>
  The cropping of lines 126 to 136:
  \<open>ds.sel(lat=slice(max(lat_bounds), min(lat_bounds)), lon=slice(min(lon_bounds), max(lon_bounds)))\<close>.
  On a track dataset \<open>lat\<close> is no index and \<open>sel\<close> raises \<open>KeyError\<close>, which the
  function catches, returning the dataset as it is. The result \<open>None\<close> is the source's
  "does not overlap" answer.
\<close>

definition crop_array :: "nat \<times> nat \<Rightarrow> nat \<times> nat \<Rightarrow> 'a list list list \<Rightarrow> 'a list list list" where
  "crop_array la lo arr = map (\<lambda>plane. map (py_slice lo) (py_slice la plane)) arr"

definition crop_grid :: "nat \<times> nat \<Rightarrow> nat \<times> nat \<Rightarrow> grid \<Rightarrow> grid" where
  "crop_grid la lo g =
     g\<lparr>g_lat := py_slice la (g_lat g),
       g_lon := py_slice lo (g_lon g),
       g_vars := (\<lambda>v. map_option (crop_array la lo) (g_vars g v))\<rparr>"

definition crop_dataset :: "dataset \<Rightarrow> real \<times> real \<Rightarrow> real \<times> real \<Rightarrow> py_error + dataset option" where
  "crop_dataset ds lat_bounds lon_bounds =
     (case ds of
        Track t \<Rightarrow> Inr (Some ds)
      | Gridded g \<Rightarrow>
          (case slice_indexer (g_lat g) (max (fst lat_bounds) (snd lat_bounds))
                  (min (fst lat_bounds) (snd lat_bounds)) of
             Inl e \<Rightarrow> if e = KeyError then Inr (Some ds) else Inl e
           | Inr la \<Rightarrow>
               (case slice_indexer (g_lon g) (min (fst lon_bounds) (snd lon_bounds))
                       (max (fst lon_bounds) (snd lon_bounds)) of
                  Inl e \<Rightarrow> if e = KeyError then Inr (Some ds) else Inl e
                | Inr lo \<Rightarrow>
                    (let cropped = crop_grid la lo g
                     in if length (g_lat cropped) = 0 \<or> length (g_lon cropped) = 0
                        then Inr None else Inr (Some (Gridded cropped))))))"

definition open_multifile_dataset ::
  "(string \<Rightarrow> int option) \<Rightarrow> folder \<Rightarrow> real \<times> real \<Rightarrow> real \<times> real \<Rightarrow> bool
     \<Rightarrow> py_error + dataset option" where
  "open_multifile_dataset to_datetime fo lat_bounds lon_bounds needs_time_coord =
     (if nc_files fo = [] then Inl FileNotFoundError
      else
        (let valid_files = filter (readable fo) (nc_files fo)
         in if valid_files = [] then Inl ValueError
            else
              (case combined fo valid_files of
                 Inl e \<Rightarrow> Inl e
               | Inr ds0 \<Rightarrow>
                   (let ds = (if needs_time_coord
                              then build_time_coordinate_from_filenames to_datetime ds0 valid_files
                              else ds0)
                    in crop_dataset ds lat_bounds lon_bounds))))"

section \<open>Extracting the values of a source (final\_dataset.py, step 6)\<close>

text \<open>
  The coordinates of the points of a table, read from its columns \<open>time\<close>, \<open>lat\<close>
  and \<open>lon\<close>. These cells are never null in the script (line 45 drops such rows, lines
  62 to 65 create none); a null or ill-typed cell makes the library call fail.
\<close>

fun point_of_cells :: "cell \<Rightarrow> cell \<Rightarrow> cell \<Rightarrow> (int \<times> real \<times> real) option" where
  "point_of_cells (TimeC t) (Num la) (Num lo) = Some (t, la, lo)"
| "point_of_cells _ _ _ = None"

definition lookup_points :: "frame \<Rightarrow> py_error + (int \<times> real \<times> real) list" where
  "lookup_points f =
     (case (column f ''time'', column f ''lat'', column f ''lon'') of
        (Inr ts, Inr las, Inr los) \<Rightarrow>
          (let ps = map (\<lambda>(t, la, lo). point_of_cells t la lo) (zip ts (zip las los))
           in if None \<in> set ps then Inl ValueError else Inr (map the ps))
      | _ \<Rightarrow> Inl KeyError)"

definition cell_of_value :: "real option \<Rightarrow> cell" where
  "cell_of_value v = (case v of None \<Rightarrow> Null | Some x \<Rightarrow> Num x)"

text \<open>
  \<open>.astype(np.int64) // 10**9\<close>: nanoseconds to whole seconds by floor division. The
  three coordinates are stacked as they are.
\<close>

definition to_seconds :: "int \<Rightarrow> int" where
  "to_seconds t = t div 10 ^ 9"

definition stack_point :: "int \<times> real \<times> real \<Rightarrow> point3" where
  "stack_point p = (case p of (t, la, lo) \<Rightarrow> (of_int (to_seconds t), la, lo))"

definition sat_points :: "track \<Rightarrow> point3 list" where
  "sat_points ds = map stack_point (zip (t_time ds) (zip (t_lat ds) (t_lon ds)))"

text \<open>
  \<open>np.vstack\<close> raises \<open>ValueError\<close> for rows of different lengths. The variable is
  read last, so a missing variable shows only then.
\<close>

definition extract_track_data_with_kdtree ::
  "track \<Rightarrow> string \<Rightarrow> (int \<times> real \<times> real) list \<Rightarrow> py_error + real option list" where
  "extract_track_data_with_kdtree ds variable lookup =
     (if length (t_lat ds) \<noteq> length (t_time ds) \<or> length (t_lon ds) \<noteq> length (t_time ds)
      then Inl ValueError
      else
        (let indices = map (kdtree_query (sat_points ds)) (map stack_point lookup)
         in case t_vars ds variable of
              None \<Rightarrow> Inl KeyError
            | Some vals \<Rightarrow> take_indices vals indices))"

text \<open>
  \<open>ds[variable].sel(lat=..., lon=..., time=..., method='nearest').values\<close> with one
  label per point on every axis: each axis is searched on its own.
\<close>

definition sel_nearest_point ::
  "grid \<Rightarrow> real option list list list \<Rightarrow> int \<times> real \<times> real \<Rightarrow> py_error + real option" where
  "sel_nearest_point g arr p =
     (case p of (t, la, lo) \<Rightarrow>
        (case (nearest_indexer (g_time g) t, nearest_indexer (g_lat g) la,
               nearest_indexer (g_lon g) lo) of
           (Inr ti, Inr i, Inr j) \<Rightarrow>
             (if ti < length arr \<and> i < length (arr ! ti) \<and> j < length (arr ! ti ! i)
              then Inr (arr ! ti ! i ! j) else Inl IndexError)
         | (Inl e, _, _) \<Rightarrow> Inl e
         | (_, Inl e, _) \<Rightarrow> Inl e
         | (_, _, Inl e) \<Rightarrow> Inl e))"

fun collect :: "('e + 'a) list \<Rightarrow> 'e + 'a list" where
  "collect [] = Inr []"
| "collect (Inl e # rs) = Inl e"
| "collect (Inr v # rs) = (case collect rs of Inl e \<Rightarrow> Inl e | Inr vs \<Rightarrow> Inr (v # vs))"

definition sel_nearest ::
  "grid \<Rightarrow> string \<Rightarrow> (int \<times> real \<times> real) list \<Rightarrow> py_error + real option list" where
  "sel_nearest g variable lookup =
     (case g_vars g variable of
        None \<Rightarrow> Inl KeyError
      | Some arr \<Rightarrow> collect (map (sel_nearest_point g arr) lookup))"

section \<open>The join script (final\_dataset.py, steps 1 to 4)\<close>

text \<open>
  What the script takes from outside: the occurrence table as \<open>pd.read_csv\<close> returns
  it (or the exception it raises), with the \<open>eventDate\<close> cells as
  \<open>pd.to_datetime(errors='coerce')\<close> leaves them; the two dates of the configuration
  as local-time timestamps in seconds; the draws of the random generator, one function
  per call site; the source folders, named by the last component of their configured
  path; and the two calendar routines of pandas.
\<close>

record env =
  occurrence :: "py_error + frame"
  start_ts :: int
  end_ts :: int
  uniform_lats :: "real \<Rightarrow> real \<Rightarrow> nat \<Rightarrow> real list"
  uniform_lons :: "real \<Rightarrow> real \<Rightarrow> nat \<Rightarrow> real list"
  randint :: "int \<Rightarrow> int \<Rightarrow> nat \<Rightarrow> int list"
  folders :: "string \<Rightarrow> folder"
  to_datetime :: "string \<Rightarrow> int option"
  dayofyear :: "int \<Rightarrow> nat"

text \<open>
  numpy's contract for the draws: \<open>uniform(low, high, n)\<close> gives \<open>n\<close> floats between
  the bounds, \<open>randint(low, high, n)\<close> gives \<open>n\<close> integers from \<open>low\<close> (inclusive) to
  \<open>high\<close> (exclusive) and raises \<open>ValueError\<close> unless \<open>low < high\<close>.
\<close>

definition uniform_ok :: "(real \<Rightarrow> real \<Rightarrow> nat \<Rightarrow> real list) \<Rightarrow> bool" where
  "uniform_ok u =
     (\<forall>lo hi n. lo \<le> hi \<longrightarrow>
        length (u lo hi n) = n \<and> (\<forall>x \<in> set (u lo hi n). lo \<le> x \<and> x \<le> hi))"

definition randint_ok :: "(int \<Rightarrow> int \<Rightarrow> nat \<Rightarrow> int list) \<Rightarrow> bool" where
  "randint_ok r =
     (\<forall>lo hi n. lo < hi \<longrightarrow>
        length (r lo hi n) = n \<and> (\<forall>t \<in> set (r lo hi n). lo \<le> t \<and> t < hi))"

definition rename_column :: "string \<Rightarrow> string" where
  "rename_column c =
     (if c = ''eventDate'' then ''time''
      else if c = ''decimalLatitude'' then ''lat''
      else if c = ''decimalLongitude'' then ''lon'' else c)"

text \<open>\<open>pd.to_datetime\<close> of the two configured dates, in nanoseconds.\<close>

definition start_date_ns :: int where
  "start_date_ns = 1577836800 * 10 ^ 9"

definition end_date_ns :: int where
  "end_date_ns = 1749513600 * 10 ^ 9"

definition in_date_range :: "cell \<Rightarrow> bool" where
  "in_date_range c = (case c of TimeC t \<Rightarrow> start_date_ns \<le> t \<and> t \<le> end_date_ns | _ \<Rightarrow> False)"

text \<open>Lines 43 to 49: rename, drop the rows with a null, keep the configured period.\<close>

definition prepare_presence :: "frame \<Rightarrow> py_error + frame" where
  "prepare_presence raw =
     (let renamed = raw\<lparr>columns := map rename_column (columns raw)\<rparr>;
          complete = dropna renamed
      in case get_loc (columns complete) ''time'' of
           None \<Rightarrow> Inl KeyError
         | Some k \<Rightarrow> Inr (complete\<lparr>rows := filter (\<lambda>r. in_date_range (r ! k)) (rows complete)\<rparr>))"

fun nums :: "cell list \<Rightarrow> real list" where
  "nums [] = []"
| "nums (Num x # cs) = x # nums cs"
| "nums (c # cs) = nums cs"

text \<open>\<open>(df[name].min(), df[name].max())\<close> of a column of floats that is not empty.\<close>

definition bounds :: "frame \<Rightarrow> string \<Rightarrow> py_error + real \<times> real" where
  "bounds f name =
     (case column f name of
        Inl e \<Rightarrow> Inl e
      | Inr cs \<Rightarrow>
          if nums cs = [] then Inl ValueError
          else Inr (Min (set (nums cs)), Max (set (nums cs))))"

text \<open>
  Step 3, the pseudo-absence points: twice as many as there are presence rows, with the
  draws put into a table with the columns \<open>time\<close>, \<open>lat\<close>, \<open>lon\<close>; no rows when
  there is no presence row.
\<close>

definition pseudo_absence :: "env \<Rightarrow> frame \<Rightarrow> py_error + frame" where
  "pseudo_absence e presence_data =
     (if length (rows presence_data) > 0 then
        (let num_pseudo_points = length (rows presence_data) * 2
         in case (bounds presence_data ''lat'', bounds presence_data ''lon'') of
              (Inr (min_lat, max_lat), Inr (min_lon, max_lon)) \<Rightarrow>
                (let pseudo_lats = uniform_lats e min_lat max_lat num_pseudo_points;
                     pseudo_lons = uniform_lons e min_lon max_lon num_pseudo_points
                 in if start_ts e \<ge> end_ts e then Inl ValueError
                    else
                      (let random_timestamps = randint e (start_ts e) (end_ts e) num_pseudo_points;
                           pseudo_times = map (\<lambda>t. t * 10 ^ 9) random_timestamps
                       in if length pseudo_lats = length pseudo_times
                             \<and> length pseudo_lons = length pseudo_times
                          then Inr \<lparr>columns = [''time'', ''lat'', ''lon''],
                                    rows = map (\<lambda>(t, la, lo). [TimeC t, Num la, Num lo])
                                             (zip pseudo_times (zip pseudo_lats pseudo_lons))\<rparr>
                          else Inl ValueError))
            | (Inl err, _) \<Rightarrow> Inl err
            | (_, Inl err) \<Rightarrow> Inl err)
      else Inr \<lparr>columns = [''time'', ''lat'', ''lon''], rows = []\<rparr>)"

section \<open>The join script (steps 6 to 8)\<close>

record source =
  src_folder :: string
  src_variable :: string
  src_is_gridded :: bool
  src_needs_time :: bool

definition data_sources :: "(string \<times> source) list" where
  "data_sources =
     [(''chlor_a'', \<lparr>src_folder = ''chlorophyll_data_8day'', src_variable = ''chlor_a'',
                     src_is_gridded = True, src_needs_time = True\<rparr>),
      (''sst'', \<lparr>src_folder = ''sst_data_8day'', src_variable = ''sst'',
                 src_is_gridded = True, src_needs_time = True\<rparr>),
      (''ssha'', \<lparr>src_folder = ''SSHA_New'', src_variable = ''ssha'',
                  src_is_gridded = False, src_needs_time = False\<rparr>),
      (''sss'', \<lparr>src_folder = ''SSS_New'', src_variable = ''sss_smap'',
                 src_is_gridded = True, src_needs_time = False\<rparr>)]"

text \<open>
  Lines 187 to 195. A track dataset has no \<open>lat\<close> index for \<open>sel\<close>; the axes of a
  gridded dataset do not stack into points.
\<close>

definition extract_values :: "source \<Rightarrow> dataset \<Rightarrow> frame \<Rightarrow> py_error + cell list" where
  "extract_values src ds final_dataset =
     (case lookup_points final_dataset of
        Inl e \<Rightarrow> Inl e
      | Inr pts \<Rightarrow>
          (case (if src_is_gridded src
                 then (case ds of Gridded g \<Rightarrow> sel_nearest g (src_variable src) pts
                                | Track t \<Rightarrow> Inl KeyError)
                 else (case ds of Track t \<Rightarrow> extract_track_data_with_kdtree t (src_variable src) pts
                                | Gridded g \<Rightarrow> Inl ValueError)) of
             Inl e \<Rightarrow> Inl e
           | Inr vs \<Rightarrow> Inr (map cell_of_value vs)))"

text \<open>
  One round of the loop of lines 176 to 200: every exception of the body is caught and
  leaves the table as it was, as does the answer \<open>None\<close> of the loader.
\<close>

definition process_source ::
  "env \<Rightarrow> real \<times> real \<Rightarrow> real \<times> real \<Rightarrow> string \<times> source \<Rightarrow> frame \<Rightarrow> frame" where
  "process_source e lat_bounds lon_bounds ns final_dataset =
     (case ns of (name, src) \<Rightarrow>
        (case open_multifile_dataset (to_datetime e) (folders e (src_folder src))
                lat_bounds lon_bounds (src_needs_time src) of
           Inl err \<Rightarrow> final_dataset
         | Inr None \<Rightarrow> final_dataset
         | Inr (Some ds) \<Rightarrow>
             (case extract_values src ds final_dataset of
                Inl err \<Rightarrow> final_dataset
              | Inr vs \<Rightarrow>
                  (case set_column final_dataset name vs of
                     Inl err \<Rightarrow> final_dataset
                   | Inr f \<Rightarrow> f))))"

definition process_sources ::
  "env \<Rightarrow> real \<times> real \<Rightarrow> real \<times> real \<Rightarrow> (string \<times> source) list \<Rightarrow> frame \<Rightarrow> frame" where
  "process_sources e lat_bounds lon_bounds srcs final_dataset =
     fold (process_source e lat_bounds lon_bounds) srcs final_dataset"

text \<open>
  Step 7: the day of the year of every row and its two cyclical features; the helper
  column is dropped again. A null time gives null features.
\<close>

definition day_cell :: "(int \<Rightarrow> nat) \<Rightarrow> (real \<Rightarrow> real) \<Rightarrow> cell \<Rightarrow> cell" where
  "day_cell doy f c =
     (case c of TimeC t \<Rightarrow> Num (f (2 * pi * real (doy t) / 365)) | _ \<Rightarrow> Null)"

definition doy_cell :: "(int \<Rightarrow> nat) \<Rightarrow> cell \<Rightarrow> cell" where
  "doy_cell doy c = (case c of TimeC t \<Rightarrow> IntC (int (doy t)) | _ \<Rightarrow> Null)"

definition add_day_features :: "(int \<Rightarrow> nat) \<Rightarrow> frame \<Rightarrow> py_error + frame" where
  "add_day_features doy f =
     (case column f ''time'' of
        Inl e \<Rightarrow> Inl e
      | Inr ts \<Rightarrow>
          (let f1 = put_column f ''day_of_year'' (map (doy_cell doy) ts);
               f2 = put_column f1 ''day_sin'' (map (day_cell doy sin) ts);
               f3 = put_column f2 ''day_cos'' (map (day_cell doy cos) ts)
           in Inr (drop_column f3 ''day_of_year'')))"

text \<open>
  Lines 219 to 222: \<open>cols.insert(len(cols), cols.pop(cols.index('presence')))\<close> and the
  selection of the columns in the new order.
\<close>

definition presence_last :: "frame \<Rightarrow> py_error + frame" where
  "presence_last f =
     (if ''presence'' \<in> set (columns f)
      then Inr (select_columns f (remove1 ''presence'' (columns f) @ [''presence'']))
      else Inl ValueError)"

definition output_path :: string where
  "output_path = ''./final_model_data/model_training_dataset.csv.gz''"

datatype outcome = Raised py_error | NoFile | Written string frame

text \<open>The column names of the file that a run has written, if it has written one.\<close>

definition written_columns :: "outcome \<Rightarrow> string list option" where
  "written_columns r = (case r of Written path f \<Rightarrow> Some (columns f) | _ \<Rightarrow> None)"

text \<open>Steps 6 and 7 for a combined table that has rows: the table before the rows are dropped.\<close>

definition joined_table :: "env \<Rightarrow> frame \<Rightarrow> frame \<Rightarrow> py_error + frame" where
  "joined_table e presence_data combined_points =
     (case (bounds presence_data ''lat'', bounds presence_data ''lon'') of
        (Inr lat_bounds, Inr lon_bounds) \<Rightarrow>
          add_day_features (dayofyear e)
            (process_sources e lat_bounds lon_bounds data_sources combined_points)
      | (Inl err, _) \<Rightarrow> Inl err
      | (_, Inl err) \<Rightarrow> Inl err)"

text \<open>
  Lines 211 to 235: the rows with a null are dropped; a table that still has rows is
  written with \<open>presence\<close> as its last column, an empty one is not written.
\<close>

definition save_table :: "frame \<Rightarrow> outcome" where
  "save_table featured =
     (let final_dataset = dropna featured
      in if rows final_dataset \<noteq> [] then
           (case presence_last final_dataset of
              Inl err \<Rightarrow> Raised err
            | Inr out \<Rightarrow> Written output_path out)
         else NoFile)"

definition join_and_save :: "env \<Rightarrow> frame \<Rightarrow> frame \<Rightarrow> outcome" where
  "join_and_save e presence_data combined_points =
     (case joined_table e presence_data combined_points of
        Inl err \<Rightarrow> Raised err
      | Inr featured \<Rightarrow> save_table featured)"

text \<open>
  The whole script. An exception of \<open>pd.read_csv\<close> is printed and raised again
  (lines 40 to 42); without any point nothing is written (lines 236 to 237).
\<close>

definition run :: "env \<Rightarrow> outcome" where
  "run e =
     (case occurrence e of
        Inl err \<Rightarrow> Raised err
      | Inr raw \<Rightarrow>
          (case prepare_presence raw of
             Inl err \<Rightarrow> Raised err
           | Inr presence_data \<Rightarrow>
               (case pseudo_absence e presence_data of
                  Inl err \<Rightarrow> Raised err
                | Inr pseudo_absence_data \<Rightarrow>
                    (let presence_data' = set_scalar presence_data ''presence'' (IntC 1);
                         pseudo_absence_data' = set_scalar pseudo_absence_data ''presence'' (IntC 0);
                         combined_points = concat_frames presence_data' pseudo_absence_data'
                     in if length (rows combined_points) > 0
                        then join_and_save e presence_data' combined_points
                        else NoFile))))"

section \<open>Small datasets for the examples\<close>

text \<open>
  A track of two samples: one at second 0 in (0, 0) with the value 1, one at second 10
  in (1, 1) with the value 2; and a point at second 4 in (1, 1). In unscaled
  (seconds, degrees, degrees) space the first sample is nearer (distance \<open>sqrt 18\<close>
  against \<open>6\<close>), although the second has the point's position.
\<close>

abbreviation demo_track :: track where
  "demo_track \<equiv>
     \<lparr>t_time = [0, 10000000000], t_lat = [0, 1], t_lon = [0, 1],
      t_vars = [''ssha'' \<mapsto> [Some 1, Some 2]]\<rparr>"

abbreviation demo_lookup :: "(int \<times> real \<times> real) list" where
  "demo_lookup \<equiv> [(4000000000, 1, 1)]"

text \<open>
  An occurrence table with one record, at a time inside the configured period, and the
  presence table that lines 43 to 49 make of it. In \<open>demo_env\<close> every source folder
  is empty, the generator returns the lower bound for latitudes and times and the
  upper bound for longitudes, and the configured dates are taken as UTC.
\<close>

abbreviation demo_time :: int where
  "demo_time \<equiv> 1600000000000000000"

definition demo_occurrence :: frame where
  "demo_occurrence =
     \<lparr>columns = [''eventDate'', ''decimalLatitude'', ''decimalLongitude''],
      rows = [[TimeC demo_time, Num 1, Num 1]]\<rparr>"

definition demo_presence :: frame where
  "demo_presence = \<lparr>columns = [''time'', ''lat'', ''lon''], rows = [[TimeC demo_time, Num 1, Num 1]]\<rparr>"

definition empty_folder :: folder where
  "empty_folder = \<lparr>nc_files = [], readable = (\<lambda>f. True), combined = (\<lambda>fs. Inl OSError)\<rparr>"

definition demo_env :: env where
  "demo_env =
     \<lparr>occurrence = Inr demo_occurrence,
      start_ts = 1577836800, end_ts = 1749513600,
      uniform_lats = (\<lambda>lo hi n. replicate n lo),
      uniform_lons = (\<lambda>lo hi n. replicate n hi),
      randint = (\<lambda>lo hi n. replicate n lo),
      folders = (\<lambda>name. empty_folder),
      to_datetime = (\<lambda>s. None),
      dayofyear = (\<lambda>t. 1)\<rparr>"

text \<open>
  More environments. \<open>demo_env_full\<close> has one readable file per source folder: a
  grid of one cell at the observed point for the gridded sources, a track of one sample
  for \<open>ssha\<close>. \<open>demo_env_gbif\<close> is the same with an occurrence file that lists
  latitude and longitude before the event date. In \<open>demo_env_null\<close> only the
  track source can be loaded and its one sample is \<open>NaN\<close>. \<open>demo_env_empty\<close>
  has an occurrence file without records. \<open>demo_joined\<close> is a joined table of two
  rows, the second with a missing value.
\<close>

definition demo_occurrence_gbif :: frame where
  "demo_occurrence_gbif =
     \<lparr>columns = [''decimalLatitude'', ''decimalLongitude'', ''eventDate''],
      rows = [[Num 1, Num 1, TimeC demo_time]]\<rparr>"

definition demo_grid :: dataset where
  "demo_grid = Gridded \<lparr>g_time = [demo_time], g_lat = [1], g_lon = [1],
                         g_vars = (\<lambda>v. Some [[[Some 5]]])\<rparr>"

definition demo_track_ds :: dataset where
  "demo_track_ds = Track \<lparr>t_time = [demo_time], t_lat = [1], t_lon = [1],
                           t_vars = (\<lambda>v. Some [Some 7])\<rparr>"

definition null_track_ds :: dataset where
  "null_track_ds = Track \<lparr>t_time = [demo_time], t_lat = [1], t_lon = [1],
                           t_vars = (\<lambda>v. Some [None])\<rparr>"

definition one_file_folder :: "dataset \<Rightarrow> folder" where
  "one_file_folder ds =
     \<lparr>nc_files = [''A.20200101_20200108.nc''], readable = (\<lambda>f. True), combined = (\<lambda>fs. Inr ds)\<rparr>"

definition demo_env_full :: env where
  "demo_env_full =
     demo_env\<lparr>folders := (\<lambda>name. if name = ''SSHA_New'' then one_file_folder demo_track_ds
                                  else one_file_folder demo_grid),
               to_datetime := (\<lambda>s. Some demo_time)\<rparr>"

definition demo_env_gbif :: env where
  "demo_env_gbif = demo_env_full\<lparr>occurrence := Inr demo_occurrence_gbif\<rparr>"

definition demo_env_null :: env where
  "demo_env_null =
     demo_env\<lparr>folders := (\<lambda>name. if name = ''SSHA_New'' then one_file_folder null_track_ds
                                  else empty_folder)\<rparr>"

definition demo_env_empty :: env where
  "demo_env_empty =
     demo_env\<lparr>occurrence := Inr \<lparr>columns = [''eventDate'', ''decimalLatitude'', ''decimalLongitude''],
                                    rows = []\<rparr>\<rparr>"

definition demo_joined :: frame where
  "demo_joined =
     \<lparr>columns = [''time'', ''presence'', ''sst''],
      rows = [[TimeC 0, IntC 1, Num 5], [TimeC 0, IntC 0, Null]]\<rparr>"


definition ascending_grid :: dataset where
  "ascending_grid =
     Gridded \<lparr>g_time = [0], g_lat = [0, 1, 2, 3], g_lon = [0, 1, 2, 3],
              g_vars = [''sss_smap'' \<mapsto> [replicate 4 (replicate 4 (Some 1))]]\<rparr>"

definition descending_grid :: dataset where
  "descending_grid =
     Gridded \<lparr>g_time = [0], g_lat = [3, 2, 1, 0], g_lon = [0, 1, 2, 3],
              g_vars = [''sss_smap'' \<mapsto> [replicate 4 (replicate 4 (Some 1))]]\<rparr>"

section \<open>Properties of the downloader\<close>

lemma download_skips_valid_file:
  "files s (save_path_of fname) = Some sz \<Longrightarrow> sz > 10000 \<Longrightarrow>
   download_nc_file fname server retries s = (Some (save_path_of fname), s)"
  by (simp add: download_nc_file_def already_valid_def min_valid_size_def)

lemma attempt_loop_slept_bound:
  "slept (snd (attempt_loop fname server a left s)) \<le> slept s + left * retry_delay"
proof (induction left arbitrary: a s)
  case 0
  show ?case by (simp add: log_line_def)
next
  case (Suc left)
  have step: "slept (snd (attempt_loop fname server (Suc a) left (sleep retry_delay s)))
                \<le> slept s + Suc left * retry_delay"
    using Suc.IH [of "Suc a" "sleep retry_delay s"] by (simp add: sleep_def)
  show ?case
    using step
    by (cases "server a") (simp_all add: log_line_def Let_def)
qed

lemma attempt_loop_exhausted:
  "\<forall>k < left. server (a + k) = RequestException \<or>
      (\<exists>st b. server (a + k) = Response False st b \<and> st \<noteq> 200 \<and> st \<noteq> 404) \<Longrightarrow>
   attempt_loop fname server a left s =
     (None, log_line (fname @ '' (Max retries reached)'') (sleep (left * retry_delay) s))"
proof (induction left arbitrary: a s)
  case 0
  show ?case by (simp add: sleep_def)
next
  case (Suc left)
  have rest: "\<forall>k < left. server (Suc a + k) = RequestException \<or>
      (\<exists>st b. server (Suc a + k) = Response False st b \<and> st \<noteq> 200 \<and> st \<noteq> 404)"
  proof (intro allI impI)
    fix k assume "k < left"
    then have "Suc k < Suc left" by simp
    with Suc.prems have "server (a + Suc k) = RequestException \<or>
      (\<exists>st b. server (a + Suc k) = Response False st b \<and> st \<noteq> 200 \<and> st \<noteq> 404)"
      by blast
    then show "server (Suc a + k) = RequestException \<or>
      (\<exists>st b. server (Suc a + k) = Response False st b \<and> st \<noteq> 200 \<and> st \<noteq> 404)"
      by simp
  qed
  have twice: "sleep (left * retry_delay) (sleep retry_delay s) = sleep (Suc left * retry_delay) s"
    by (simp add: sleep_def add.commute add.left_commute)
  have first: "server a = RequestException \<or>
      (\<exists>st b. server a = Response False st b \<and> st \<noteq> 200 \<and> st \<noteq> 404)"
    using Suc.prems [rule_format, of 0] by simp
  then show ?case
  proof
    assume "server a = RequestException"
    then show ?thesis
      using Suc.IH [OF rest, of "sleep retry_delay s"] twice by simp
  next
    assume "\<exists>st b. server a = Response False st b \<and> st \<noteq> 200 \<and> st \<noteq> 404"
    then obtain st b where "server a = Response False st b" "st \<noteq> 200" "st \<noteq> 404"
      by blast
    then show ?thesis
      using Suc.IH [OF rest, of "sleep retry_delay s"] twice by simp
  qed
qed

text \<open>
  C8. The claim: the downloader skips a file that exists and passes the size check,
  retries a transient failure up to a fixed bound with a fixed delay, logs the target on
  exhaustion, and logs every permanently failed or not-found target to the sidecar file.
  The first three parts hold (\<open>download_skips_valid_file\<close>, \<open>attempt_loop_exhausted\<close>,
  \<open>attempt_loop_slept_bound\<close>). The last part fails: a target answered with an HTML
  page (the script's own message says the file name may be incorrect), and a target whose
  downloaded file is too small, are given up at once and nothing is written to the log,
  while the 404 branch and the exhaustion branch beside them do write to it.
\<close>

theorem download_html_answer_not_logged:
  "download_nc_file ''AQUA_MODIS.bad.nc'' (\<lambda>n. Response True 200 512) 3
     \<lparr>files = Map.empty, missing_log = [], slept = 0\<rparr>
   = (None, \<lparr>files = Map.empty, missing_log = [], slept = 0\<rparr>)"
  by (simp add: download_nc_file_def already_valid_def numeral_3_eq_3)

section \<open>Properties of the track lookup\<close>

lemma euclidean_le_iff: "euclidean p q \<le> euclidean r q \<longleftrightarrow> sq_dist p q \<le> sq_dist r q"
  by (simp add: euclidean_def)

lemma kdtree_query_nearest:
  "ps \<noteq> [] \<Longrightarrow> kdtree_query ps q < length ps \<and>
     (\<forall>i < length ps. sq_dist (ps ! kdtree_query ps q) q \<le> sq_dist (ps ! i) q)"
proof (induction ps q rule: kdtree_query.induct)
  case (1 q)
  then show ?case by simp
next
  case (2 p q)
  then show ?case by simp
next
  case (3 p p' ps q)
  let ?rest = "p' # ps"
  let ?j = "kdtree_query ?rest q"
  have ih: "?j < length ?rest" "\<forall>i < length ?rest. sq_dist (?rest ! ?j) q \<le> sq_dist (?rest ! i) q"
    using 3 by simp_all
  show ?case
  proof (cases "sq_dist p q \<le> sq_dist (?rest ! ?j) q")
    case True
    have "\<forall>i < length (p # ?rest). sq_dist p q \<le> sq_dist ((p # ?rest) ! i) q"
    proof (intro allI impI)
      fix i assume "i < length (p # ?rest)"
      show "sq_dist p q \<le> sq_dist ((p # ?rest) ! i) q"
      proof (cases i)
        case 0 then show ?thesis by simp
      next
        case (Suc k)
        with \<open>i < length (p # ?rest)\<close> have "k < length ?rest" by simp
        with ih(2) True Suc show ?thesis by force
      qed
    qed
    with True show ?thesis by simp
  next
    case False
    have "\<forall>i < length (p # ?rest). sq_dist (?rest ! ?j) q \<le> sq_dist ((p # ?rest) ! i) q"
    proof (intro allI impI)
      fix i assume "i < length (p # ?rest)"
      show "sq_dist (?rest ! ?j) q \<le> sq_dist ((p # ?rest) ! i) q"
      proof (cases i)
        case 0 with False show ?thesis by simp
      next
        case (Suc k)
        with \<open>i < length (p # ?rest)\<close> have "k < length ?rest" by simp
        with ih(2) Suc show ?thesis by force
      qed
    qed
    with False ih(1) show ?thesis by (simp add: Let_def)
  qed
qed

lemma sat_points_length:
  "length (t_lat ds) = length (t_time ds) \<Longrightarrow> length (t_lon ds) = length (t_time ds) \<Longrightarrow>
   length (sat_points ds) = length (t_time ds)"
  by (simp add: sat_points_def)

lemma sat_points_nth:
  "length (t_lat ds) = length (t_time ds) \<Longrightarrow> length (t_lon ds) = length (t_time ds) \<Longrightarrow>
   i < length (t_time ds) \<Longrightarrow>
   sat_points ds ! i = (real_of_int (t_time ds ! i div 10 ^ 9), t_lat ds ! i, t_lon ds ! i)"
  by (simp add: sat_points_def stack_point_def to_seconds_def)

lemma extract_track_eq:
  assumes "length (t_lat ds) = length (t_time ds)" "length (t_lon ds) = length (t_time ds)"
    and "t_vars ds variable = Some vals" "length vals = length (t_time ds)" "t_time ds \<noteq> []"
  shows "extract_track_data_with_kdtree ds variable lookup =
           Inr (map (\<lambda>p. vals ! kdtree_query (sat_points ds) (stack_point p)) lookup)"
proof -
  have ne: "sat_points ds \<noteq> []"
    using assms sat_points_length [of ds] by (metis length_0_conv)
  have "\<forall>i \<in> set (map (kdtree_query (sat_points ds)) (map stack_point lookup)). i < length vals"
    using kdtree_query_nearest [OF ne] assms sat_points_length [of ds] by auto
  then show ?thesis
    using assms by (simp add: extract_track_data_with_kdtree_def take_indices_def Let_def comp_def)
qed

text \<open>
  C2. For every point and every track source that is not empty, the attached value is
  the value of a track sample that minimises the Euclidean distance to the point in
  (seconds since the epoch, degrees of latitude, degrees of longitude) space, the
  three coordinates taken as they are: seconds by floor division of the nanoseconds,
  no scaling.
\<close>

theorem track_value_is_nearest_sample:
  assumes "length (t_lat ds) = length (t_time ds)" "length (t_lon ds) = length (t_time ds)"
    and "t_vars ds variable = Some vals" "length vals = length (t_time ds)" "t_time ds \<noteq> []"
  shows "\<exists>vs. extract_track_data_with_kdtree ds variable lookup = Inr vs \<and> length vs = length lookup \<and>
     (\<forall>k < length lookup. \<exists>i < length vals. vs ! k = vals ! i \<and>
        (\<forall>j < length vals.
           euclidean (real_of_int (t_time ds ! i div 10 ^ 9), t_lat ds ! i, t_lon ds ! i)
                     (real_of_int (fst (lookup ! k) div 10 ^ 9), fst (snd (lookup ! k)), snd (snd (lookup ! k)))
           \<le> euclidean (real_of_int (t_time ds ! j div 10 ^ 9), t_lat ds ! j, t_lon ds ! j)
                     (real_of_int (fst (lookup ! k) div 10 ^ 9), fst (snd (lookup ! k)), snd (snd (lookup ! k)))))"
proof -
  let ?sp = "sat_points ds"
  have len: "length ?sp = length vals"
    using assms sat_points_length [of ds] by simp
  have ne: "?sp \<noteq> []"
    using len assms by (metis length_0_conv)
  have q: "stack_point p = (real_of_int (fst p div 10 ^ 9), fst (snd p), snd (snd p))" for p
    by (cases p) (simp add: stack_point_def to_seconds_def)
  have "\<exists>i < length vals. vals ! kdtree_query ?sp (stack_point (lookup ! k)) = vals ! i \<and>
        (\<forall>j < length vals.
           euclidean (real_of_int (t_time ds ! i div 10 ^ 9), t_lat ds ! i, t_lon ds ! i)
                     (stack_point (lookup ! k))
           \<le> euclidean (real_of_int (t_time ds ! j div 10 ^ 9), t_lat ds ! j, t_lon ds ! j)
                     (stack_point (lookup ! k)))" for k
  proof -
    let ?i = "kdtree_query ?sp (stack_point (lookup ! k))"
    have i: "?i < length vals"
      using kdtree_query_nearest [OF ne] len by simp
    have "euclidean (?sp ! ?i) (stack_point (lookup ! k)) \<le> euclidean (?sp ! j) (stack_point (lookup ! k))"
      if "j < length vals" for j
      using kdtree_query_nearest [OF ne, of "stack_point (lookup ! k)"] that len
      by (simp add: euclidean_le_iff)
    then have "\<forall>j < length vals.
           euclidean (real_of_int (t_time ds ! ?i div 10 ^ 9), t_lat ds ! ?i, t_lon ds ! ?i)
                     (stack_point (lookup ! k))
           \<le> euclidean (real_of_int (t_time ds ! j div 10 ^ 9), t_lat ds ! j, t_lon ds ! j)
                     (stack_point (lookup ! k))"
      using sat_points_nth [of ds] assms i by simp
    with i show ?thesis by blast
  qed
  then show ?thesis
    using extract_track_eq [OF assms, of lookup] by (simp add: q)
qed

theorem track_value_is_nearest_sample_witness:
  "length (t_lat demo_track) = length (t_time demo_track) \<and>
   length (t_lon demo_track) = length (t_time demo_track) \<and>
   t_vars demo_track ''ssha'' = Some [Some 1, Some 2] \<and>
   length [Some (1::real), Some 2] = length (t_time demo_track) \<and>
   t_time demo_track \<noteq> [] \<and>
   extract_track_data_with_kdtree demo_track ''ssha'' demo_lookup = Inr [Some 1]"
proof -
  have h1: "length (t_lat demo_track) = length (t_time demo_track)" by simp
  have h2: "length (t_lon demo_track) = length (t_time demo_track)" by simp
  have h3: "t_vars demo_track ''ssha'' = Some [Some 1, Some 2]" by simp
  have h4: "length [Some (1::real), Some 2] = length (t_time demo_track)" by simp
  have h5: "t_time demo_track \<noteq> []" by simp
  obtain vs where vs: "extract_track_data_with_kdtree demo_track ''ssha'' demo_lookup = Inr vs"
      "length vs = length demo_lookup"
      "\<forall>k < length demo_lookup. \<exists>i < length [Some (1::real), Some 2].
         vs ! k = [Some (1::real), Some 2] ! i \<and>
         (\<forall>j < length [Some (1::real), Some 2].
            euclidean (real_of_int (t_time demo_track ! i div 10 ^ 9), t_lat demo_track ! i,
                       t_lon demo_track ! i)
                      (real_of_int (fst (demo_lookup ! k) div 10 ^ 9), fst (snd (demo_lookup ! k)),
                       snd (snd (demo_lookup ! k)))
            \<le> euclidean (real_of_int (t_time demo_track ! j div 10 ^ 9), t_lat demo_track ! j,
                          t_lon demo_track ! j)
                      (real_of_int (fst (demo_lookup ! k) div 10 ^ 9), fst (snd (demo_lookup ! k)),
                       snd (snd (demo_lookup ! k))))"
    using track_value_is_nearest_sample [OF h1 h2 h3 h4 h5, of demo_lookup] by blast
  from vs(3) obtain i where i: "i < length [Some (1::real), Some 2]"
      "vs ! 0 = [Some (1::real), Some 2] ! i"
      "\<forall>j < length [Some (1::real), Some 2].
            euclidean (real_of_int (t_time demo_track ! i div 10 ^ 9), t_lat demo_track ! i,
                       t_lon demo_track ! i)
                      (real_of_int (fst (demo_lookup ! 0) div 10 ^ 9), fst (snd (demo_lookup ! 0)),
                       snd (snd (demo_lookup ! 0)))
            \<le> euclidean (real_of_int (t_time demo_track ! j div 10 ^ 9), t_lat demo_track ! j,
                          t_lon demo_track ! j)
                      (real_of_int (fst (demo_lookup ! 0) div 10 ^ 9), fst (snd (demo_lookup ! 0)),
                       snd (snd (demo_lookup ! 0)))"
    by auto
  have "i = 0"
  proof (rule ccontr)
    assume "i \<noteq> 0"
    with i(1) have "i = 1" by simp
    with i(3) [rule_format, of 0] show False by (simp add: euclidean_le_iff)
  qed
  with i(2) have "vs ! 0 = Some 1" by simp
  moreover from vs(2) have "length vs = 1" by simp
  ultimately have "vs = [Some 1]"
    by (cases vs) simp_all
  with vs(1) h1 h2 h3 h4 h5 show ?thesis by simp
qed

text \<open>
  C10. For a track source that is not empty the lookup gives every point the value of
  some track sample, whatever the distance: there is no cutoff and no failure, and
  the lookup brings in no null of its own (if no sample value is \<open>NaN\<close>, no attached
  value is).
\<close>

theorem track_lookup_has_no_cutoff:
  assumes "length (t_lat ds) = length (t_time ds)" "length (t_lon ds) = length (t_time ds)"
    and "t_vars ds variable = Some vals" "length vals = length (t_time ds)" "t_time ds \<noteq> []"
  shows "\<exists>vs. extract_track_data_with_kdtree ds variable lookup = Inr vs \<and> length vs = length lookup \<and>
     set vs \<subseteq> set vals \<and> (None \<notin> set vals \<longrightarrow> None \<notin> set vs)"
proof -
  let ?sp = "sat_points ds"
  have len: "length ?sp = length vals"
    using assms sat_points_length [of ds] by simp
  have ne: "?sp \<noteq> []"
    using len assms by (metis length_0_conv)
  have mem: "vals ! kdtree_query ?sp q \<in> set vals" for q
    using kdtree_query_nearest [OF ne, of q] len by simp
  have "set (map (\<lambda>p. vals ! kdtree_query ?sp (stack_point p)) lookup) \<subseteq> set vals"
  proof
    fix v assume "v \<in> set (map (\<lambda>p. vals ! kdtree_query ?sp (stack_point p)) lookup)"
    then obtain p where "v = vals ! kdtree_query ?sp (stack_point p)" by auto
    then show "v \<in> set vals" using mem by simp
  qed
  then show ?thesis
    using extract_track_eq [OF assms, of lookup] by auto
qed


theorem track_lookup_has_no_cutoff_witness:
  "length (t_lat demo_track) = length (t_time demo_track) \<and>
   length (t_lon demo_track) = length (t_time demo_track) \<and>
   t_vars demo_track ''ssha'' = Some [Some 1, Some 2] \<and>
   length [Some (1::real), Some 2] = length (t_time demo_track) \<and>
   t_time demo_track \<noteq> [] \<and>
   (\<exists>vs. extract_track_data_with_kdtree demo_track ''ssha'' [(9000000000000000000, 90, 180)] = Inr vs \<and>
      length vs = length [(9000000000000000000 :: int, 90 :: real, 180 :: real)] \<and>
      set vs \<subseteq> set [Some 1, Some 2] \<and>
      (None \<notin> set [Some (1::real), Some 2] \<longrightarrow> None \<notin> set vs))"
proof -
  have h1: "length (t_lat demo_track) = length (t_time demo_track)" by simp
  have h2: "length (t_lon demo_track) = length (t_time demo_track)" by simp
  have h3: "t_vars demo_track ''ssha'' = Some [Some 1, Some 2]" by simp
  have h4: "length [Some (1::real), Some 2] = length (t_time demo_track)" by simp
  have h5: "t_time demo_track \<noteq> []" by simp
  show ?thesis
    using h1 h2 h3 h4 h5
      track_lookup_has_no_cutoff [OF h1 h2 h3 h4 h5, of "[(9000000000000000000, 90, 180)]"]
    by blast
qed

section \<open>Properties of the sampler and of the source loop\<close>

lemma get_loc_None_iff: "get_loc xs x = None \<longleftrightarrow> x \<notin> set xs"
  by (induction xs) auto


lemma bounds_le:
  assumes "bounds f name = Inr (lo, hi)"
  shows "lo \<le> hi"
proof -
  from assms obtain cs where cs: "column f name = Inr cs" "nums cs \<noteq> []"
      "lo = Min (set (nums cs))" "hi = Max (set (nums cs))"
    by (auto simp: bounds_def split: sum.splits if_splits)
  have "hd (nums cs) \<in> set (nums cs)" using cs(2) by simp
  then have "Min (set (nums cs)) \<le> hd (nums cs)" "hd (nums cs) \<le> Max (set (nums cs))"
    by simp_all
  with cs(3,4) show ?thesis by simp
qed
lemma uniform_okD:
  "uniform_ok u \<Longrightarrow> lo \<le> hi \<Longrightarrow>
   length (u lo hi n) = n \<and> (\<forall>x \<in> set (u lo hi n). lo \<le> x \<and> x \<le> hi)"
  unfolding uniform_ok_def by blast

lemma randint_okD:
  "randint_ok r \<Longrightarrow> lo < hi \<Longrightarrow>
   length (r lo hi n) = n \<and> (\<forall>t \<in> set (r lo hi n). lo \<le> t \<and> t < hi)"
  unfolding randint_ok_def by blast

lemma pseudo_absence_eq:
  assumes "rows p \<noteq> []"
    and "bounds p ''lat'' = Inr (min_lat, max_lat)" "bounds p ''lon'' = Inr (min_lon, max_lon)"
    and "uniform_ok (uniform_lats e)" "uniform_ok (uniform_lons e)" "randint_ok (randint e)"
    and "start_ts e < end_ts e"
  shows "pseudo_absence e p =
     Inr \<lparr>columns = [''time'', ''lat'', ''lon''],
          rows = map (\<lambda>(t, la, lo). [TimeC t, Num la, Num lo])
                   (zip (map (\<lambda>t. t * 10 ^ 9) (randint e (start_ts e) (end_ts e) (length (rows p) * 2)))
                      (zip (uniform_lats e min_lat max_lat (length (rows p) * 2))
                           (uniform_lons e min_lon max_lon (length (rows p) * 2))))\<rparr>"
proof -
  have "min_lat \<le> max_lat" "min_lon \<le> max_lon"
    using assms(2,3) by (auto dest: bounds_le)
  then have "length (uniform_lats e min_lat max_lat (length (rows p) * 2)) = length (rows p) * 2"
    "length (uniform_lons e min_lon max_lon (length (rows p) * 2)) = length (rows p) * 2"
    "length (randint e (start_ts e) (end_ts e) (length (rows p) * 2)) = length (rows p) * 2"
    using uniform_okD [OF assms(4)] uniform_okD [OF assms(5)] randint_okD [OF assms(6,7)]
    by blast+
  then show ?thesis
    using assms(1,2,3,7) by (simp add: pseudo_absence_def Let_def)
qed

text \<open>
  C4, as amended. Given observed points (at least one), the sampler produces exactly
  twice as many synthetic points, and the synthetic points are the draws themselves:
  the latitude of the k-th point is the k-th value of the call
  \<open>np.random.uniform(min_lat, max_lat, 2N)\<close>, its longitude the k-th value of the
  separate call \<open>np.random.uniform(min_lon, max_lon, 2N)\<close>, both over the bounding
  box of the observed points, and its timestamp the k-th value of
  \<open>np.random.randint(start_ts, end_ts, 2N)\<close>, a whole second \<open>t\<close> with
  \<open>t0 \<le> t < t1\<close>, converted to a timestamp. Nothing is added to, taken from or
  changed in the three sequences of draws.
\<close>

theorem pseudo_absence_points:
  assumes "rows p \<noteq> []"
    and "bounds p ''lat'' = Inr (min_lat, max_lat)" "bounds p ''lon'' = Inr (min_lon, max_lon)"
    and "uniform_ok (uniform_lats e)" "uniform_ok (uniform_lons e)" "randint_ok (randint e)"
    and "start_ts e < end_ts e"
  shows "pseudo_absence e p =
       Inr \<lparr>columns = [''time'', ''lat'', ''lon''],
            rows = map (\<lambda>(t, la, lo). [TimeC t, Num la, Num lo])
                     (zip (map (\<lambda>t. t * 10 ^ 9)
                             (randint e (start_ts e) (end_ts e) (length (rows p) * 2)))
                        (zip (uniform_lats e min_lat max_lat (length (rows p) * 2))
                             (uniform_lons e min_lon max_lon (length (rows p) * 2))))\<rparr>
     \<and> length (randint e (start_ts e) (end_ts e) (length (rows p) * 2)) = 2 * length (rows p)
     \<and> length (uniform_lats e min_lat max_lat (length (rows p) * 2)) = 2 * length (rows p)
     \<and> length (uniform_lons e min_lon max_lon (length (rows p) * 2)) = 2 * length (rows p)
     \<and> (\<forall>t \<in> set (randint e (start_ts e) (end_ts e) (length (rows p) * 2)).
            start_ts e \<le> t \<and> t < end_ts e)
     \<and> (\<forall>la \<in> set (uniform_lats e min_lat max_lat (length (rows p) * 2)).
            min_lat \<le> la \<and> la \<le> max_lat)
     \<and> (\<forall>lo \<in> set (uniform_lons e min_lon max_lon (length (rows p) * 2)).
            min_lon \<le> lo \<and> lo \<le> max_lon)
     \<and> (\<exists>out. pseudo_absence e p = Inr out \<and> length (rows out) = 2 * length (rows p))"
proof -
  let ?n = "length (rows p) * 2"
  let ?ts = "randint e (start_ts e) (end_ts e) ?n"
  let ?las = "uniform_lats e min_lat max_lat ?n"
  let ?los = "uniform_lons e min_lon max_lon ?n"
  have le: "min_lat \<le> max_lat" "min_lon \<le> max_lon"
    using assms(2,3) by (auto dest: bounds_le)
  have len: "length ?las = ?n" "length ?los = ?n" "length ?ts = ?n"
    using uniform_okD [OF assms(4) le(1)] uniform_okD [OF assms(5) le(2)]
      randint_okD [OF assms(6,7)] by blast+
  have ts: "\<forall>t \<in> set ?ts. start_ts e \<le> t \<and> t < end_ts e"
    using randint_okD [OF assms(6,7)] by blast
  have las: "\<forall>x \<in> set ?las. min_lat \<le> x \<and> x \<le> max_lat"
    using uniform_okD [OF assms(4) le(1)] by blast
  have los: "\<forall>x \<in> set ?los. min_lon \<le> x \<and> x \<le> max_lon"
    using uniform_okD [OF assms(5) le(2)] by blast
  note eq = pseudo_absence_eq [OF assms]
  have count: "\<exists>out. pseudo_absence e p = Inr out \<and> length (rows out) = 2 * length (rows p)"
    using eq len by simp
  show ?thesis
    using eq len ts las los count by (simp add: mult.commute)
qed

lemma demo_presence_bounds:
  "bounds demo_presence ''lat'' = Inr (1, 1)" "bounds demo_presence ''lon'' = Inr (1, 1)"
  by (simp_all add: bounds_def column_def demo_presence_def)

lemma demo_uniform_ok: "uniform_ok (\<lambda>lo hi n. replicate n lo)" "uniform_ok (\<lambda>lo hi n. replicate n hi)"
  by (simp_all add: uniform_ok_def)

lemma demo_randint_ok: "randint_ok (\<lambda>lo hi n. replicate n lo)"
  by (simp add: randint_ok_def)

text \<open>
  C4, as stated, fails: the upper end \<open>t1\<close> of the time range is never drawn, whatever
  the generator does within its contract (\<open>numpy.random.randint\<close> excludes \<open>high\<close>).
\<close>

theorem end_timestamp_never_drawn:
  "\<not> (\<exists>r out row. randint_ok r \<and> pseudo_absence (demo_env\<lparr>randint := r\<rparr>) demo_presence = Inr out \<and>
        row \<in> set (rows out) \<and> hd row = TimeC (end_ts demo_env * 10 ^ 9))"
proof
  assume "\<exists>r out row. randint_ok r \<and> pseudo_absence (demo_env\<lparr>randint := r\<rparr>) demo_presence = Inr out \<and>
        row \<in> set (rows out) \<and> hd row = TimeC (end_ts demo_env * 10 ^ 9)"
  then obtain r out row where r: "randint_ok r"
    and out: "pseudo_absence (demo_env\<lparr>randint := r\<rparr>) demo_presence = Inr out"
    and row: "row \<in> set (rows out)" "hd row = TimeC (end_ts demo_env * 10 ^ 9)"
    by blast
  let ?e = "demo_env\<lparr>randint := r\<rparr>"
  have eq: "pseudo_absence ?e demo_presence =
     Inr \<lparr>columns = [''time'', ''lat'', ''lon''],
          rows = map (\<lambda>(t, la, lo). [TimeC t, Num la, Num lo])
                   (zip (map (\<lambda>t. t * 10 ^ 9) (r 1577836800 1749513600 2))
                      (zip (replicate 2 1) (replicate 2 1)))\<rparr>"
    using pseudo_absence_eq [of demo_presence 1 1 1 1 ?e] r demo_presence_bounds demo_uniform_ok
    by (simp add: demo_env_def demo_presence_def)
  with out row(1) obtain t' la lo where "row = [TimeC t', Num la, Num lo]"
      "(t', la, lo) \<in> set (zip (map (\<lambda>t. t * 10 ^ 9) (r 1577836800 1749513600 2))
                      (zip (replicate 2 (1::real)) (replicate 2 (1::real))))"
    by auto
  then obtain t where t: "t \<in> set (r 1577836800 1749513600 2)" "hd row = TimeC (t * 10 ^ 9)"
    by (auto dest!: set_zip_leftD)
  have "(1577836800::int) < 1749513600" by simp
  with r have "\<forall>t \<in> set (r 1577836800 1749513600 2). 1577836800 \<le> t \<and> t < 1749513600"
    unfolding randint_ok_def by blast
  with t(1) have "t < 1749513600" by blast
  with t(2) row(2) show False
    by (simp add: demo_env_def)
qed


lemma open_empty_directory:
  "nc_files fo = [] \<Longrightarrow> open_multifile_dataset td fo lb lob nt = Inl FileNotFoundError"
  by (simp add: open_multifile_dataset_def)

lemma open_all_files_corrupt:
  "nc_files fo \<noteq> [] \<Longrightarrow> \<forall>f \<in> set (nc_files fo). \<not> readable fo f \<Longrightarrow>
   open_multifile_dataset td fo lb lob nt = Inl ValueError"
  by (simp add: open_multifile_dataset_def Let_def filter_empty_conv)

text \<open>
  C6. When loading a source fails (the loader raises, as for an empty directory or
  for files that are all corrupt), when the loader reports no overlap, or when indexing
  the loaded source fails, the round of the loop leaves the table as it was, so the
  source has no column, and the remaining sources are processed as if the failed one
  had not been there. The loop itself has no other exit: \<open>process_sources\<close> always
  returns a table.
\<close>

theorem source_failure_is_skipped:
  assumes "(\<exists>err. open_multifile_dataset (to_datetime e) (folders e (src_folder src))
                     lat_bounds lon_bounds (src_needs_time src) = Inl err)
         \<or> open_multifile_dataset (to_datetime e) (folders e (src_folder src))
                     lat_bounds lon_bounds (src_needs_time src) = Inr None
         \<or> (\<exists>ds err. open_multifile_dataset (to_datetime e) (folders e (src_folder src))
                     lat_bounds lon_bounds (src_needs_time src) = Inr (Some ds)
               \<and> extract_values src ds final_dataset = Inl err)"
  shows "process_source e lat_bounds lon_bounds (name, src) final_dataset = final_dataset
       \<and> process_sources e lat_bounds lon_bounds ((name, src) # rest) final_dataset
           = process_sources e lat_bounds lon_bounds rest final_dataset"
proof -
  have one: "process_source e lat_bounds lon_bounds (name, src) final_dataset = final_dataset"
    using assms by (auto simp: process_source_def)
  then show ?thesis
    by (simp add: process_sources_def)
qed


theorem pseudo_absence_points_witness:
  "rows demo_presence \<noteq> [] \<and>
   bounds demo_presence ''lat'' = Inr (1, 1) \<and> bounds demo_presence ''lon'' = Inr (1, 1) \<and>
   uniform_ok (uniform_lats demo_env) \<and> uniform_ok (uniform_lons demo_env) \<and>
   randint_ok (randint demo_env) \<and> start_ts demo_env < end_ts demo_env \<and>
   pseudo_absence demo_env demo_presence =
     Inr \<lparr>columns = [''time'', ''lat'', ''lon''],
          rows = [[TimeC (start_ts demo_env * 10 ^ 9), Num 1, Num 1],
                  [TimeC (start_ts demo_env * 10 ^ 9), Num 1, Num 1]]\<rparr>"
proof -
  have h1: "rows demo_presence \<noteq> []" by (simp add: demo_presence_def)
  have h2: "bounds demo_presence ''lat'' = Inr (1, 1)" by (rule demo_presence_bounds)
  have h3: "bounds demo_presence ''lon'' = Inr (1, 1)" by (rule demo_presence_bounds)
  have h4: "uniform_ok (uniform_lats demo_env)" by (simp add: demo_env_def demo_uniform_ok)
  have h5: "uniform_ok (uniform_lons demo_env)" by (simp add: demo_env_def demo_uniform_ok)
  have h6: "randint_ok (randint demo_env)" by (simp add: demo_env_def demo_randint_ok)
  have h7: "start_ts demo_env < end_ts demo_env" by (simp add: demo_env_def)
  have draws: "randint demo_env (start_ts demo_env) (end_ts demo_env) (length (rows demo_presence) * 2)
        = [start_ts demo_env, start_ts demo_env]"
      "uniform_lats demo_env 1 1 (length (rows demo_presence) * 2) = [1, 1]"
      "uniform_lons demo_env 1 1 (length (rows demo_presence) * 2) = [1, 1]"
    by (simp_all add: demo_env_def demo_presence_def numeral_2_eq_2)
  from pseudo_absence_points [OF h1 h2 h3 h4 h5 h6 h7]
  have "pseudo_absence demo_env demo_presence =
       Inr \<lparr>columns = [''time'', ''lat'', ''lon''],
            rows = map (\<lambda>(t, la, lo). [TimeC t, Num la, Num lo])
                     (zip (map (\<lambda>t. t * 10 ^ 9)
                             (randint demo_env (start_ts demo_env) (end_ts demo_env)
                                (length (rows demo_presence) * 2)))
                        (zip (uniform_lats demo_env 1 1 (length (rows demo_presence) * 2))
                             (uniform_lons demo_env 1 1 (length (rows demo_presence) * 2))))\<rparr>"
    by blast
  then have "pseudo_absence demo_env demo_presence =
     Inr \<lparr>columns = [''time'', ''lat'', ''lon''],
          rows = [[TimeC (start_ts demo_env * 10 ^ 9), Num 1, Num 1],
                  [TimeC (start_ts demo_env * 10 ^ 9), Num 1, Num 1]]\<rparr>"
    unfolding draws by simp
  with h1 h2 h3 h4 h5 h6 h7 show ?thesis by blast
qed

theorem source_failure_is_skipped_witness:
  "((\<exists>err. open_multifile_dataset (to_datetime demo_env) (folders demo_env (src_folder (snd (hd data_sources))))
                     (1, 1) (1, 1) (src_needs_time (snd (hd data_sources))) = Inl err)
    \<or> open_multifile_dataset (to_datetime demo_env) (folders demo_env (src_folder (snd (hd data_sources))))
                     (1, 1) (1, 1) (src_needs_time (snd (hd data_sources))) = Inr None
    \<or> (\<exists>ds err. open_multifile_dataset (to_datetime demo_env) (folders demo_env (src_folder (snd (hd data_sources))))
                     (1, 1) (1, 1) (src_needs_time (snd (hd data_sources))) = Inr (Some ds)
               \<and> extract_values (snd (hd data_sources)) ds demo_presence = Inl err))
   \<and> process_source demo_env (1, 1) (1, 1) (''chlor_a'', snd (hd data_sources)) demo_presence = demo_presence
   \<and> process_sources demo_env (1, 1) (1, 1) ((''chlor_a'', snd (hd data_sources)) # tl data_sources) demo_presence
       = process_sources demo_env (1, 1) (1, 1) (tl data_sources) demo_presence"
proof -
  have h: "(\<exists>err. open_multifile_dataset (to_datetime demo_env) (folders demo_env (src_folder (snd (hd data_sources))))
                     (1, 1) (1, 1) (src_needs_time (snd (hd data_sources))) = Inl err)
    \<or> open_multifile_dataset (to_datetime demo_env) (folders demo_env (src_folder (snd (hd data_sources))))
                     (1, 1) (1, 1) (src_needs_time (snd (hd data_sources))) = Inr None
    \<or> (\<exists>ds err. open_multifile_dataset (to_datetime demo_env) (folders demo_env (src_folder (snd (hd data_sources))))
                     (1, 1) (1, 1) (src_needs_time (snd (hd data_sources))) = Inr (Some ds)
               \<and> extract_values (snd (hd data_sources)) ds demo_presence = Inl err)"
    by (simp add: demo_env_def empty_folder_def open_empty_directory)
  show ?thesis
    using h source_failure_is_skipped [OF h, of "''chlor_a''" "tl data_sources"] by blast
qed

section \<open>Properties of the tables of the join script\<close>

lemma put_column_columns:
  "columns (put_column f n vs) = (if n \<in> set (columns f) then columns f else columns f @ [n])"
proof (cases "get_loc (columns f) n")
  case None
  then have "n \<notin> set (columns f)" by (simp add: get_loc_None_iff)
  with None show ?thesis by (simp add: put_column_def)
next
  case (Some k)
  then have "n \<in> set (columns f)" using get_loc_None_iff [of "columns f" n] by simp
  with Some show ?thesis by (simp add: put_column_def)
qed

lemma process_source_columns:
  "columns (process_source e lb lob (n, src) f) = columns f
   \<or> (n \<notin> set (columns f) \<and> columns (process_source e lb lob (n, src) f) = columns f @ [n])"
  by (auto simp: process_source_def set_column_def put_column_columns split: sum.splits option.splits if_splits)

lemma process_sources_columns:
  "\<exists>names. columns (process_sources e lb lob srcs f) = columns f @ names \<and> subseq names (map fst srcs)"
proof (induction srcs arbitrary: f)
  case Nil
  then show ?case by (simp add: process_sources_def)
next
  case (Cons s srcs)
  obtain n src where s: "s = (n, src)" by (cases s)
  let ?f = "process_source e lb lob (n, src) f"
  from Cons.IH [of ?f] obtain names where names:
    "columns (process_sources e lb lob srcs ?f) = columns ?f @ names" "subseq names (map fst srcs)"
    by blast
  have step: "process_sources e lb lob (s # srcs) f = process_sources e lb lob srcs ?f"
    by (simp add: process_sources_def s)
  from process_source_columns [of e lb lob n src f] show ?case
  proof
    assume "columns ?f = columns f"
    with names step have "columns (process_sources e lb lob (s # srcs) f) = columns f @ names"
      "subseq names (map fst (s # srcs))"
      by (simp_all add: s list_emb_Cons)
    then show ?thesis by blast
  next
    assume "n \<notin> set (columns f) \<and> columns ?f = columns f @ [n]"
    with names step have "columns (process_sources e lb lob (s # srcs) f) = columns f @ (n # names)"
      "subseq (n # names) (map fst (s # srcs))"
      by (simp_all add: s)
    then show ?thesis by blast
  qed
qed

lemma subseq_all_eq:
  assumes "subseq xs ys" "set ys \<subseteq> set xs" "distinct ys"
  shows "xs = ys"
proof -
  have "length ys = card (set ys)" using assms(3) by (simp add: distinct_card)
  also have "\<dots> \<le> card (set xs)" using assms(2) by (simp add: card_mono)
  also have "\<dots> \<le> length xs" by (rule card_length)
  finally have "length ys \<le> length xs" .
  moreover have "length xs \<le> length ys" using assms(1) by (rule list_emb_length)
  ultimately show ?thesis using assms(1) subseq_same_length by fastforce
qed

lemma select_columns_columns: "columns (select_columns f cols) = cols"
  by (simp add: select_columns_def)

lemma add_day_features_columns:
  assumes "add_day_features doy f = Inr g"
    and "''day_of_year'' \<notin> set (columns f)" "''day_sin'' \<notin> set (columns f)"
    and "''day_cos'' \<notin> set (columns f)"
  shows "columns g = columns f @ [''day_sin'', ''day_cos'']"
proof -
  from assms(1) obtain ts where ts: "column f ''time'' = Inr ts"
    and g: "g = drop_column (put_column (put_column (put_column f ''day_of_year'' (map (doy_cell doy) ts))
                 ''day_sin'' (map (day_cell doy sin) ts)) ''day_cos'' (map (day_cell doy cos) ts)) ''day_of_year''"
    by (auto simp: add_day_features_def Let_def split: sum.splits)
  have "filter (\<lambda>c. c \<noteq> ''day_of_year'') (columns f) = columns f"
    using assms(2) by (auto simp: filter_id_conv)
  then show ?thesis
    using assms(2-4) by (simp add: g drop_column_def select_columns_columns put_column_columns)
qed

lemma dropna_columns: "columns (dropna f) = columns f"
  by (simp add: dropna_def)

lemma save_table_Written:
  assumes "save_table f = Written path out"
  shows "path = output_path \<and> ''presence'' \<in> set (columns f) \<and> rows (dropna f) \<noteq> []
       \<and> out = select_columns (dropna f) (remove1 ''presence'' (columns f) @ [''presence''])"
  using assms
  by (auto simp: save_table_def Let_def presence_last_def dropna_columns split: if_splits sum.splits)

lemma set_scalar_columns:
  "columns (set_scalar f n c) = (if n \<in> set (columns f) then columns f else columns f @ [n])"
  by (simp add: set_scalar_def put_column_columns)

lemma prepare_presence_columns:
  "prepare_presence raw = Inr p \<Longrightarrow> columns p = map rename_column (columns raw)"
  by (auto simp: prepare_presence_def Let_def dropna_def split: option.splits)

lemma pseudo_absence_columns:
  "pseudo_absence e p = Inr q \<Longrightarrow> columns q = [''time'', ''lat'', ''lon'']"
  by (auto simp: pseudo_absence_def Let_def split: if_splits sum.splits prod.splits)

lemma concat_frames_columns:
  "columns (concat_frames a b) = columns a @ filter (\<lambda>c. c \<notin> set (columns a)) (columns b)"
  by (simp add: concat_frames_def Let_def)

lemma run_Written:
  assumes "run e = Written path out"
  shows "\<exists>raw p q featured.
     occurrence e = Inr raw \<and> prepare_presence raw = Inr p \<and> pseudo_absence e p = Inr q \<and>
     joined_table e (set_scalar p ''presence'' (IntC 1))
       (concat_frames (set_scalar p ''presence'' (IntC 1)) (set_scalar q ''presence'' (IntC 0))) = Inr featured \<and>
     save_table featured = Written path out"
  using assms
  by (auto simp: run_def join_and_save_def Let_def split: sum.splits if_splits)

lemma joined_table_columns:
  assumes "joined_table e p c = Inr featured"
    and "''day_of_year'' \<notin> set (columns c)" "''day_sin'' \<notin> set (columns c)" "''day_cos'' \<notin> set (columns c)"
  shows "\<exists>names. subseq names (map fst data_sources) \<and>
           columns featured = columns c @ names @ [''day_sin'', ''day_cos'']"
proof -
  from assms(1) obtain lb lob where f: "add_day_features (dayofyear e) (process_sources e lb lob data_sources c) = Inr featured"
    by (auto simp: joined_table_def split: sum.splits prod.splits)
  obtain names where names: "columns (process_sources e lb lob data_sources c) = columns c @ names"
      "subseq names (map fst data_sources)"
    using process_sources_columns by blast
  have "set names \<subseteq> set (map fst data_sources)"
    using names(2) by (auto elim: list_emb_set)
  then have "''day_of_year'' \<notin> set names" "''day_sin'' \<notin> set names" "''day_cos'' \<notin> set names"
    by (auto simp: data_sources_def)
  with names(1) assms(2-4) f have "columns featured = (columns c @ names) @ [''day_sin'', ''day_cos'']"
    using add_day_features_columns [OF f] by simp
  with names(2) show ?thesis by auto
qed

lemma renamed_columns_set:
  assumes "set (columns raw) = {''eventDate'', ''decimalLatitude'', ''decimalLongitude''}"
  shows "set (map rename_column (columns raw)) = {''time'', ''lat'', ''lon''}"
proof -
  have "set (map rename_column (columns raw)) = rename_column ` set (columns raw)" by simp
  also have "\<dots> = {''time'', ''lat'', ''lon''}"
    unfolding assms by (auto simp: rename_column_def)
  finally show ?thesis .
qed

lemma run_columns:
  assumes "occurrence e = Inr raw"
    and "set (columns raw) = {''eventDate'', ''decimalLatitude'', ''decimalLongitude''}"
    and "run e = Written path out"
  shows "path = output_path \<and>
     (\<exists>names. subseq names (map fst data_sources) \<and>
        columns out = map rename_column (columns raw) @ names @ [''day_sin'', ''day_cos'', ''presence''])"
proof -
  let ?tc = "map rename_column (columns raw)"
  from run_Written [OF assms(3)] assms(1) obtain p q featured where
    p: "prepare_presence raw = Inr p" and q: "pseudo_absence e p = Inr q"
    and j: "joined_table e (set_scalar p ''presence'' (IntC 1))
       (concat_frames (set_scalar p ''presence'' (IntC 1)) (set_scalar q ''presence'' (IntC 0))) = Inr featured"
    and s: "save_table featured = Written path out"
    by auto
  let ?c = "concat_frames (set_scalar p ''presence'' (IntC 1)) (set_scalar q ''presence'' (IntC 0))"
  have tc: "set ?tc = {''time'', ''lat'', ''lon''}"
    by (rule renamed_columns_set [OF assms(2)])
  have cp: "columns (set_scalar p ''presence'' (IntC 1)) = ?tc @ [''presence'']"
    using tc by (simp add: set_scalar_columns prepare_presence_columns [OF p])
  have cq: "columns (set_scalar q ''presence'' (IntC 0)) = [''time'', ''lat'', ''lon'', ''presence'']"
    by (simp add: set_scalar_columns pseudo_absence_columns [OF q])
  have cc: "columns ?c = ?tc @ [''presence'']"
    using tc by (simp add: concat_frames_columns cp cq)
  have notin: "''day_of_year'' \<notin> set (columns ?c)" "''day_sin'' \<notin> set (columns ?c)"
    "''day_cos'' \<notin> set (columns ?c)"
    using tc by (simp_all add: cc)
  from joined_table_columns [OF j notin] obtain names where
    names: "subseq names (map fst data_sources)"
      "columns featured = columns ?c @ names @ [''day_sin'', ''day_cos'']"
    by blast
  have "''presence'' \<notin> set ?tc" using tc by simp
  then have "remove1 ''presence'' (columns featured) = ?tc @ names @ [''day_sin'', ''day_cos'']"
    by (simp add: names(2) cc remove1_append)
  moreover from save_table_Written [OF s] have "path = output_path"
    "columns out = remove1 ''presence'' (columns featured) @ [''presence'']"
    by (simp_all add: select_columns_columns)
  ultimately show ?thesis using names(1) by auto
qed

text \<open>
  C9, as amended. When a file is written, it is \<open>model_training_dataset.csv.gz\<close> in
  the output directory; with all four source columns present, its columns are the three
  point columns in the order in which the occurrence file lists them (renamed to
  \<open>time\<close>, \<open>lat\<close>, \<open>lon\<close>), then \<open>chlor_a, sst, ssha, sss, day_sin, day_cos\<close>,
  and \<open>presence\<close> last.
\<close>

theorem output_columns:
  assumes "occurrence e = Inr raw"
    and "set (columns raw) = {''eventDate'', ''decimalLatitude'', ''decimalLongitude''}"
    and "run e = Written path out"
    and "{''chlor_a'', ''sst'', ''ssha'', ''sss''} \<subseteq> set (columns out)"
  shows "path = ''./final_model_data/model_training_dataset.csv.gz'' \<and>
     columns out = map rename_column (columns raw)
        @ [''chlor_a'', ''sst'', ''ssha'', ''sss'', ''day_sin'', ''day_cos'', ''presence'']"
proof -
  from run_columns [OF assms(1-3)] obtain names where
    path: "path = output_path" and names: "subseq names (map fst data_sources)"
    and cols: "columns out = map rename_column (columns raw) @ names @ [''day_sin'', ''day_cos'', ''presence'']"
    by blast
  have tc: "set (map rename_column (columns raw)) = {''time'', ''lat'', ''lon''}"
    by (rule renamed_columns_set [OF assms(2)])
  have "set (columns out) = {''time'', ''lat'', ''lon''} \<union> set names \<union> {''day_sin'', ''day_cos'', ''presence''}"
    unfolding cols using tc by auto
  with assms(4) have "set (map fst data_sources) \<subseteq> set names"
    by (auto simp: data_sources_def)
  moreover have "distinct (map fst data_sources)"
    by (simp add: data_sources_def)
  ultimately have "names = map fst data_sources"
    using names by (rule_tac subseq_all_eq)
  then show ?thesis
    using path cols by (simp add: data_sources_def output_path_def)
qed

lemmas frame_defs = column_def put_column_def set_column_def set_scalar_def dropna_def
  select_columns_def drop_column_def widen_def concat_frames_def

lemma demo_prepare: "prepare_presence demo_occurrence = Inr demo_presence"
  by (simp add: prepare_presence_def demo_occurrence_def demo_presence_def rename_column_def
      dropna_def in_date_range_def start_date_ns_def end_date_ns_def Let_def)

lemma demo_prepare_gbif:
  "prepare_presence demo_occurrence_gbif =
     Inr \<lparr>columns = [''lat'', ''lon'', ''time''], rows = [[Num 1, Num 1, TimeC demo_time]]\<rparr>"
  by (simp add: prepare_presence_def demo_occurrence_gbif_def rename_column_def
      dropna_def in_date_range_def start_date_ns_def end_date_ns_def Let_def)

lemma demo_pseudo:
  "pseudo_absence demo_env_null demo_presence =
     Inr \<lparr>columns = [''time'', ''lat'', ''lon''],
          rows = [[TimeC 1577836800000000000, Num 1, Num 1], [TimeC 1577836800000000000, Num 1, Num 1]]\<rparr>"
  by (simp add: pseudo_absence_def demo_presence_bounds [unfolded demo_presence_def]
      demo_env_null_def demo_env_def demo_presence_def Let_def numeral_2_eq_2)

lemmas run_defs = run_def join_and_save_def joined_table_def save_table_def presence_last_def
  add_day_features_def process_sources_def process_source_def extract_values_def
  lookup_points_def open_multifile_dataset_def crop_dataset_def crop_grid_def crop_array_def
  build_time_coordinate_from_filenames_def filename_time_def basename_def time_dim_def
  assign_time_def sel_nearest_def sel_nearest_point_def extract_track_data_with_kdtree_def
  sat_points_def stack_point_def to_seconds_def take_indices_def cell_of_value_def
  bounds_def pseudo_absence_def prepare_presence_def rename_column_def in_date_range_def
  start_date_ns_def end_date_ns_def data_sources_def day_cell_def doy_cell_def
  nearest_indexer_def fill_indexer_def searchsorted_monotonic_def is_monotonic_increasing_def
  is_monotonic_decreasing_def slice_indexer_def get_slice_bound_def py_slice_def py_nth_def

lemma run_demo_env_null: "run demo_env_null = NoFile"
  by (simp add: run_defs frame_defs demo_env_null_def demo_env_def demo_occurrence_def
      one_file_folder_def empty_folder_def null_track_ds_def Let_def numeral_2_eq_2)

lemma run_demo_env_full:
  "written_columns (run demo_env_full) =
     Some [''time'', ''lat'', ''lon'', ''chlor_a'', ''sst'', ''ssha'', ''sss'', ''day_sin'', ''day_cos'', ''presence'']"
  by (simp add: written_columns_def run_defs frame_defs demo_env_full_def demo_env_def demo_occurrence_def
      one_file_folder_def demo_grid_def demo_track_ds_def Let_def numeral_2_eq_2)

text \<open>
  C9, as stated, fails: \<open>pd.read_csv(usecols=...)\<close> keeps the column order of the
  file, and the script never reorders the point columns. For an occurrence file that
  lists \<open>decimalLatitude\<close>, \<open>decimalLongitude\<close> before \<open>eventDate\<close>, with all
  four sources processed, the written table starts with \<open>lat, lon, time\<close>.
\<close>

theorem columns_follow_file_order:
  "written_columns (run demo_env_gbif) =
     Some [''lat'', ''lon'', ''time'', ''chlor_a'', ''sst'', ''ssha'', ''sss'', ''day_sin'', ''day_cos'', ''presence'']"
  by (simp add: written_columns_def run_defs frame_defs demo_env_gbif_def demo_env_full_def demo_env_def
      demo_occurrence_gbif_def one_file_folder_def demo_grid_def demo_track_ds_def Let_def numeral_2_eq_2)

lemma prepare_presence_no_rows:
  "rows raw = [] \<Longrightarrow> ''eventDate'' \<in> set (columns raw) \<Longrightarrow>
   \<exists>p. prepare_presence raw = Inr p \<and> rows p = []"
proof -
  assume a: "rows raw = []" "''eventDate'' \<in> set (columns raw)"
  then have "''time'' \<in> set (map rename_column (columns raw))"
    by (force simp: rename_column_def)
  then obtain k where "get_loc (map rename_column (columns raw)) ''time'' = Some k"
    using get_loc_None_iff [of "map rename_column (columns raw)" "''time''"] by auto
  with a(1) show ?thesis
    by (simp add: prepare_presence_def Let_def dropna_def)
qed

text \<open>
  C7, as amended. When no occurrence record is usable (none in the file, or none left
  after lines 43 to 49), the sampler produces a table without rows, and the run ends
  without an exception and without writing a file.
\<close>

theorem no_points_no_file:
  assumes "occurrence e = Inr raw" "prepare_presence raw = Inr p" "rows p = []"
  shows "pseudo_absence e p = Inr \<lparr>columns = [''time'', ''lat'', ''lon''], rows = []\<rparr> \<and> run e = NoFile"
proof -
  have q: "pseudo_absence e p = Inr \<lparr>columns = [''time'', ''lat'', ''lon''], rows = []\<rparr>"
    using assms(3) by (simp add: pseudo_absence_def)
  have "rows (concat_frames (set_scalar p ''presence'' (IntC 1))
          (set_scalar \<lparr>columns = [''time'', ''lat'', ''lon''], rows = []\<rparr> ''presence'' (IntC 0))) = []"
    using assms(3)
    by (simp add: concat_frames_def widen_def set_scalar_def put_column_def Let_def split: option.splits)
  then have "run e = NoFile"
    using assms(1,2) q by (simp add: run_def Let_def)
  with q show ?thesis by simp
qed

theorem no_points_no_file_witness:
  "occurrence demo_env_empty = Inr \<lparr>columns = [''eventDate'', ''decimalLatitude'', ''decimalLongitude''], rows = []\<rparr> \<and>
   prepare_presence \<lparr>columns = [''eventDate'', ''decimalLatitude'', ''decimalLongitude''], rows = []\<rparr>
     = Inr \<lparr>columns = [''time'', ''lat'', ''lon''], rows = []\<rparr> \<and>
   rows \<lparr>columns = [''time'', ''lat'', ''lon''], rows = ([] :: cell list list)\<rparr> = [] \<and>
   pseudo_absence demo_env_empty \<lparr>columns = [''time'', ''lat'', ''lon''], rows = []\<rparr>
     = Inr \<lparr>columns = [''time'', ''lat'', ''lon''], rows = []\<rparr> \<and>
   run demo_env_empty = NoFile"
proof -
  have h1: "occurrence demo_env_empty =
      Inr \<lparr>columns = [''eventDate'', ''decimalLatitude'', ''decimalLongitude''], rows = []\<rparr>"
    by (simp add: demo_env_empty_def demo_env_def)
  have h2: "prepare_presence \<lparr>columns = [''eventDate'', ''decimalLatitude'', ''decimalLongitude''], rows = []\<rparr>
     = Inr \<lparr>columns = [''time'', ''lat'', ''lon''], rows = []\<rparr>"
    by (simp add: prepare_presence_def rename_column_def dropna_def Let_def)
  have h3: "rows \<lparr>columns = [''time'', ''lat'', ''lon''], rows = ([] :: cell list list)\<rparr> = []"
    by simp
  show ?thesis
    using h1 h2 h3 no_points_no_file [OF h1 h2 h3] by simp
qed

text \<open>
  C7, as stated, fails in its last part: an empty occurrence table is not the only
  condition under which no file is written. Here one record is usable, the only source
  that loads gives \<open>NaN\<close> for every point, every row is dropped, and the branch of
  lines 234 to 235 writes nothing. (A failure to read the occurrence file is raised
  again by line 42, see \<open>run_read_failure\<close>.)
\<close>

theorem usable_points_without_file:
  "occurrence demo_env_null = Inr demo_occurrence \<and>
   prepare_presence demo_occurrence = Inr demo_presence \<and>
   length (rows demo_presence) = 1 \<and>
   run demo_env_null = NoFile"
  by (simp add: demo_prepare run_demo_env_null) (simp add: demo_env_null_def demo_env_def demo_presence_def)

lemma run_read_failure:
  "occurrence e = Inl err \<Longrightarrow> run e = Raised err"
  by (simp add: run_def)

lemma get_loc_nth: "distinct xs \<Longrightarrow> i < length xs \<Longrightarrow> get_loc xs (xs ! i) = Some i"
proof (induction xs arbitrary: i)
  case Nil
  then show ?case by simp
next
  case (Cons x xs)
  show ?case
  proof (cases i)
    case 0
    then show ?thesis by simp
  next
    case (Suc j)
    with Cons.prems have "j < length xs" "xs ! j \<noteq> x" "distinct xs" by auto
    with Cons.IH [of j] Suc show ?thesis by auto
  qed
qed

lemma reordered_row:
  assumes "distinct cols" "length r = length cols" "set cols' = set cols"
  shows "set (zip cols' (map (\<lambda>c. r ! the (get_loc cols c)) cols')) = set (zip cols r)"
proof -
  have "zip cols' (map (\<lambda>c. r ! the (get_loc cols c)) cols') = map (\<lambda>c. (c, r ! the (get_loc cols c))) cols'"
    by (induction cols') simp_all
  then have lhs: "set (zip cols' (map (\<lambda>c. r ! the (get_loc cols c)) cols'))
      = (\<lambda>c. (c, r ! the (get_loc cols c))) ` set cols"
    using assms(3) by simp
  have rhs: "set (zip cols r) = {(cols ! i, r ! i) | i. i < length cols}"
    using assms(2) by (auto simp: set_zip)
  show ?thesis
  proof
    show "set (zip cols' (map (\<lambda>c. r ! the (get_loc cols c)) cols')) \<subseteq> set (zip cols r)"
    proof
      fix x assume "x \<in> set (zip cols' (map (\<lambda>c. r ! the (get_loc cols c)) cols'))"
      with lhs obtain c where c: "c \<in> set cols" "x = (c, r ! the (get_loc cols c))" by auto
      then obtain i where i: "i < length cols" "cols ! i = c" by (auto simp: in_set_conv_nth)
      with assms(1) have "get_loc cols c = Some i" using get_loc_nth by blast
      with c i rhs show "x \<in> set (zip cols r)" by auto
    qed
  next
    show "set (zip cols r) \<subseteq> set (zip cols' (map (\<lambda>c. r ! the (get_loc cols c)) cols'))"
    proof
      fix x assume "x \<in> set (zip cols r)"
      with rhs obtain i where i: "i < length cols" "x = (cols ! i, r ! i)" by auto
      with assms(1) have "get_loc cols (cols ! i) = Some i" using get_loc_nth by blast
      with i lhs show "x \<in> set (zip cols' (map (\<lambda>c. r ! the (get_loc cols c)) cols'))"
        by (auto simp: image_iff intro!: bexI [of _ "cols ! i"])
    qed
  qed
qed

text \<open>
  C5. Of a well-formed joined table the rows without any null cell, and only they,
  reach the output, in their order and with their values: if there is such a row, the
  table is written and its rows, read as assignments of values to column names, are
  exactly the complete rows of the joined table; if every row has a null cell, nothing
  is written.
\<close>

theorem complete_rows_are_kept:
  assumes "frame_ok f" "''presence'' \<in> set (columns f)"
  shows "((\<exists>r \<in> set (rows f). Null \<notin> set r) \<longrightarrow>
            (\<exists>out. save_table f = Written output_path out \<and>
                map (\<lambda>r. set (zip (columns out) r)) (rows out)
                  = map (\<lambda>r. set (zip (columns f) r)) (filter (\<lambda>r. Null \<notin> set r) (rows f))))
       \<and> ((\<forall>r \<in> set (rows f). Null \<in> set r) \<longrightarrow> save_table f = NoFile)"
proof -
  let ?cols' = "remove1 ''presence'' (columns f) @ [''presence'']"
  let ?kept = "filter (\<lambda>r. Null \<notin> set r) (rows f)"
  let ?out = "select_columns (dropna f) ?cols'"
  have set_cols: "set ?cols' = set (columns f)"
    using assms(2) by (auto simp: set_remove1_eq [OF frame_ok_def [THEN iffD1, THEN conjunct1, OF assms(1)]])
  have row: "set (zip ?cols' (map (\<lambda>c. r ! the (get_loc (columns f) c)) ?cols')) = set (zip (columns f) r)"
    if "r \<in> set (rows f)" for r
    using assms(1) that set_cols by (intro reordered_row) (auto simp: frame_ok_def)
  have out: "map (\<lambda>r. set (zip (columns ?out) r)) (rows ?out) = map (\<lambda>r. set (zip (columns f) r)) ?kept"
    using row by (simp add: select_columns_def dropna_def comp_def)
  have written: "save_table f = Written output_path ?out" if "\<exists>r \<in> set (rows f). Null \<notin> set r"
  proof -
    from that have "?kept \<noteq> []" by (auto simp: filter_empty_conv)
    then show ?thesis
      using assms(2) by (simp add: save_table_def Let_def presence_last_def dropna_def)
  qed
  have nofile: "save_table f = NoFile" if "\<forall>r \<in> set (rows f). Null \<in> set r"
  proof -
    from that have "?kept = []" by (auto simp: filter_empty_conv)
    then show ?thesis by (simp add: save_table_def Let_def dropna_def)
  qed
  show ?thesis
    using written out nofile by blast
qed

theorem complete_rows_are_kept_witness:
  "frame_ok demo_joined \<and> ''presence'' \<in> set (columns demo_joined) \<and>
   (\<exists>r \<in> set (rows demo_joined). Null \<notin> set r) \<and>
   (\<exists>out. save_table demo_joined = Written output_path out \<and>
      map (\<lambda>r. set (zip (columns out) r)) (rows out)
        = [{(''time'', TimeC 0), (''presence'', IntC 1), (''sst'', Num 5)}])"
proof -
  have h1: "frame_ok demo_joined" by (simp add: frame_ok_def demo_joined_def)
  have h2: "''presence'' \<in> set (columns demo_joined)" by (simp add: demo_joined_def)
  have h3: "\<exists>r \<in> set (rows demo_joined). Null \<notin> set r" by (simp add: demo_joined_def)
  from complete_rows_are_kept [OF h1 h2] h3 obtain out where
    out: "save_table demo_joined = Written output_path out"
      "map (\<lambda>r. set (zip (columns out) r)) (rows out)
        = map (\<lambda>r. set (zip (columns demo_joined) r)) (filter (\<lambda>r. Null \<notin> set r) (rows demo_joined))"
    by blast
  have "map (\<lambda>r. set (zip (columns demo_joined) r)) (filter (\<lambda>r. Null \<notin> set r) (rows demo_joined))
      = [{(''time'', TimeC 0), (''presence'', IntC 1), (''sst'', Num 5)}]"
    by (simp add: demo_joined_def)
  with out h1 h2 h3 show ?thesis by auto
qed

theorem output_columns_witness:
  "occurrence demo_env_full = Inr demo_occurrence \<and>
   set (columns demo_occurrence) = {''eventDate'', ''decimalLatitude'', ''decimalLongitude''} \<and>
   (\<exists>path out. run demo_env_full = Written path out \<and>
      {''chlor_a'', ''sst'', ''ssha'', ''sss''} \<subseteq> set (columns out) \<and>
      path = ''./final_model_data/model_training_dataset.csv.gz'' \<and>
      columns out = [''time'', ''lat'', ''lon'', ''chlor_a'', ''sst'', ''ssha'', ''sss'',
                     ''day_sin'', ''day_cos'', ''presence''])"
proof -
  have h1: "occurrence demo_env_full = Inr demo_occurrence"
    by (simp add: demo_env_full_def demo_env_def)
  have h2: "set (columns demo_occurrence) = {''eventDate'', ''decimalLatitude'', ''decimalLongitude''}"
    by (simp add: demo_occurrence_def)
  from run_demo_env_full obtain path out where
    h3: "run demo_env_full = Written path out"
    and cols: "columns out = [''time'', ''lat'', ''lon'', ''chlor_a'', ''sst'', ''ssha'', ''sss'',
                     ''day_sin'', ''day_cos'', ''presence'']"
    by (auto simp: written_columns_def split: outcome.splits)
  have h4: "{''chlor_a'', ''sst'', ''ssha'', ''sss''} \<subseteq> set (columns out)"
    by (simp add: cols)
  from output_columns [OF h1 h2 h3 h4]
  have "path = ''./final_model_data/model_training_dataset.csv.gz'' \<and>
     columns out = [''time'', ''lat'', ''lon'', ''chlor_a'', ''sst'', ''ssha'', ''sss'',
                    ''day_sin'', ''day_cos'', ''presence'']"
    by (simp add: demo_occurrence_def rename_column_def)
  with h1 h2 h3 h4 show ?thesis by blast
qed

section \<open>Properties of the gridded lookup and of the cropping\<close>















lemmas indexer_defs = nearest_indexer_def fill_indexer_def searchsorted_monotonic_def
  is_monotonic_increasing_def is_monotonic_decreasing_def py_nth_def
  slice_indexer_def get_slice_bound_def py_slice_def


text \<open>
  C3. The claim: a gridded source is skipped exactly when its bounding box does not
  overlap the box of the points, whatever the direction of its axes. The code crops
  with \<open>slice(max, min)\<close> on the latitude, which selects nothing on an ascending
  axis: the first source below covers latitudes 0 to 3, the points lie in 1 to 2, and
  the loader answers \<open>None\<close> ("do not overlap"), while the same source with a
  descending latitude axis is kept. The loader also answers \<open>None\<close> for the
  descending source when the points' box (1.2 to 1.3) lies between two axis values.
\<close>

theorem overlapping_source_is_skipped:
  "open_multifile_dataset (\<lambda>s. None) (one_file_folder ascending_grid) (1, 2) (1, 2) False = Inr None \<and>
   open_multifile_dataset (\<lambda>s. None) (one_file_folder descending_grid) (1, 2) (1, 2) False \<noteq> Inr None \<and>
   open_multifile_dataset (\<lambda>s. None) (one_file_folder descending_grid) (6 / 5, 13 / 10) (1, 2) False = Inr None"
  by (simp add: open_multifile_dataset_def one_file_folder_def crop_dataset_def crop_grid_def
      ascending_grid_def descending_grid_def indexer_defs Let_def)

end
